theory Spec2Isabelle
  imports Main
begin

section \<open>Constants of \<^verbatim>\<open>app7.py\<close>\<close>

definition MAX_RETRIES :: nat where
  "MAX_RETRIES = 3"

definition RETRY_DELAY :: nat where
  "RETRY_DELAY = 2"

definition MAX_QUESTIONS_PER_SESSION :: int where
  "MAX_QUESTIONS_PER_SESSION = 500"

section \<open>Data model\<close>

text \<open>
  An entry of \<^verbatim>\<open>state.messages\<close>: the dictionary
  \<^verbatim>\<open>{"role": ..., "content": ...}\<close>.
\<close>

record chat_message =
  role :: string
  content :: string

text \<open>
  \<^verbatim>\<open>class SessionState\<close>, one field per attribute set in \<^verbatim>\<open>__init__\<close>.
  \<^verbatim>\<open>question_count\<close> is a Python integer, hence \<^typ>\<open>int\<close>.
\<close>

record SessionState =
  start_chat :: bool
  thread_id :: "string option"
  buttons_shown :: bool
  resume_text :: string
  job_description_text :: string
  job_type :: string
  messages :: "chat_message list"
  processing :: bool
  job_input_method :: string
  job_url :: string
  resume_input_method :: string
  assistant_is_typing :: bool
  question_count :: int

definition SessionState_init :: SessionState where
  "SessionState_init =
     \<lparr> start_chat = False, thread_id = None, buttons_shown = False,
       resume_text = [], job_description_text = [], job_type = [],
       messages = [], processing = False, job_input_method = ''url'',
       job_url = [], resume_input_method = ''paste'',
       assistant_is_typing = False, question_count = 0 \<rparr>"

subsection \<open>Objects handed back by the remote assistant service\<close>

text \<open>
  The code reads \<^verbatim>\<open>thread.id\<close>, \<^verbatim>\<open>run.id\<close>, \<^verbatim>\<open>run.status\<close>,
  \<^verbatim>\<open>message.run_id\<close>, \<^verbatim>\<open>message.role\<close> and
  \<^verbatim>\<open>message.content[0].text.value\<close>. A status is the string the service sends;
  a message written by the user has no producing run (\<^verbatim>\<open>run_id\<close> is \<^verbatim>\<open>None\<close>);
  a content block that is not text has no \<^verbatim>\<open>text\<close> attribute.
\<close>

datatype thread = Thread (thread_ident: string)

datatype run = Run (ident: string) (status: string)

datatype content_block = TextBlock string | ImageFileBlock string

record thread_message =
  run_id :: "string option"
  message_role :: string
  message_content :: "content_block list"

subsection \<open>Errors and outcomes\<close>

text \<open>
  What one invocation of a remote function does: it returns, raises an exception of
  the library's class \<^verbatim>\<open>OpenAIError\<close> (the argument is \<^verbatim>\<open>str(e)\<close>), or raises
  anything else.
\<close>

datatype 'a outcome =
    Returns 'a
  | Raises_OpenAIError string
  | Raises_Exception string

text \<open>
  The exceptions that leave the functions modelled here. \<^verbatim>\<open>APIError\<close> is the class
  declared in the source; its argument is the message. The others are Python's own:
  an attribute read on \<^verbatim>\<open>None\<close>, on a module without the attribute or on a block
  without \<^verbatim>\<open>text\<close>, an index into an empty list, an iteration over \<^verbatim>\<open>None\<close>, a
  missing dictionary key.
\<close>

datatype error =
    APIError string
  | Exception string
  | AttributeError
  | IndexError
  | TypeError
  | KeyError

subsection \<open>The world outside the session\<close>

text \<open>
  The five remote functions the source passes to \<^verbatim>\<open>safe_api_call\<close>, each a
  transition on the state \<^typ>\<open>'w\<close> of the remote service.
\<close>

datatype remote_function =
    Threads_create | Messages_create | Runs_create | Runs_retrieve | Messages_list

record 'w openai =
  threads_create :: "'w \<Rightarrow> thread outcome \<times> 'w"
  messages_create :: "string option \<Rightarrow> string \<Rightarrow> string \<Rightarrow> 'w \<Rightarrow> unit outcome \<times> 'w"
  runs_create :: "string option \<Rightarrow> string \<Rightarrow> 'w \<Rightarrow> run outcome \<times> 'w"
  runs_retrieve :: "string option \<Rightarrow> string \<Rightarrow> 'w \<Rightarrow> run outcome \<times> 'w"
  messages_list :: "string option \<Rightarrow> 'w \<Rightarrow> thread_message list outcome \<times> 'w"

text \<open>
  The effects of the code in the order they happen: every invocation of a remote
  function and every \<^verbatim>\<open>time.sleep\<close>, with its duration.
\<close>

datatype event = Call remote_function | Sleep nat

text \<open>
  Everything the code touches besides the \<^verbatim>\<open>SessionState\<close> object: the remote
  service, the record of effects, and \<^verbatim>\<open>st.session_state.previous_question\<close>
  (\<open>None\<close> while the key is not set).
\<close>

record 'w env =
  world :: 'w
  trace :: "event list"
  previous_question :: "string option"

definition sleep :: "nat \<Rightarrow> 'w env \<Rightarrow> 'w env" where
  "sleep d env = env\<lparr>trace := trace env @ [Sleep d]\<rparr>"

definition invoke :: "remote_function \<Rightarrow> ('w \<Rightarrow> 'a outcome \<times> 'w) \<Rightarrow> 'w env \<Rightarrow> 'a outcome \<times> 'w env" where
  "invoke name func env =
     (case func (world env) of
        (out, w') \<Rightarrow> (out, env\<lparr>world := w', trace := trace env @ [Call name]\<rparr>))"

section \<open>The retry executor\<close>

text \<open>Python's \<^verbatim>\<open>str\<close> of a non-negative integer.\<close>

fun str_nat :: "nat \<Rightarrow> string" where
  "str_nat n =
     (if n < 10 then [''0123456789'' ! n]
      else str_nat (n div 10) @ [''0123456789'' ! (n mod 10)])"

declare str_nat.simps [simp del]

text \<open>
  The expression \<^verbatim>\<open>openai.error.OpenAIError\<close> of the \<^verbatim>\<open>except\<close> clause (line 50).
  Python evaluates it when an exception raised by \<^verbatim>\<open>func\<close> reaches the clause. The
  functions under \<^verbatim>\<open>openai.beta\<close> that lines 80 to 99 call exist only in the
  releases of the library whose module \<^verbatim>\<open>openai\<close> has no attribute \<^verbatim>\<open>error\<close>, so
  the evaluation raises \<^verbatim>\<open>AttributeError\<close>, which replaces the exception being
  handled, whatever its class. \<open>None\<close> is the missing attribute; \<open>Some\<close> would be a
  module that has the class.
\<close>

definition openai_error :: "unit option" where
  "openai_error = None"

text \<open>
  \<^verbatim>\<open>safe_api_call\<close>. The loop runs over \<^verbatim>\<open>range(MAX_RETRIES)\<close>; a loop that ends
  without returning or raising makes the function return \<^verbatim>\<open>None\<close>, the result
  \<open>Inr None\<close> here. The body of the \<^verbatim>\<open>except\<close> clause (lines 51 to 53) runs only
  if the expression of the clause can be evaluated and the exception is of that class.
\<close>

fun safe_api_call_loop ::
  "nat list \<Rightarrow> remote_function \<Rightarrow> ('w \<Rightarrow> 'a outcome \<times> 'w) \<Rightarrow> 'w env \<Rightarrow> (error + 'a option) \<times> 'w env" where
  "safe_api_call_loop [] name func env = (Inr None, env)"
| "safe_api_call_loop (attempt # rest) name func env =
     (case invoke name func env of
        (Returns v, env') \<Rightarrow> (Inr (Some v), env')
      | (Raises_OpenAIError e, env') \<Rightarrow>
          (case openai_error of
             None \<Rightarrow> (Inl AttributeError, env')
           | Some cls \<Rightarrow>
               if attempt = MAX_RETRIES - 1
               then (Inl (APIError (''API call failed after '' @ str_nat MAX_RETRIES
                                     @ '' attempts: '' @ e)), env')
               else safe_api_call_loop rest name func (sleep RETRY_DELAY env'))
      | (Raises_Exception e, env') \<Rightarrow>
          (case openai_error of
             None \<Rightarrow> (Inl AttributeError, env')
           | Some cls \<Rightarrow> (Inl (Exception e), env')))"

definition safe_api_call ::
  "remote_function \<Rightarrow> ('w \<Rightarrow> 'a outcome \<times> 'w) \<Rightarrow> 'w env \<Rightarrow> (error + 'a option) \<times> 'w env" where
  "safe_api_call name func env = safe_api_call_loop [0..<MAX_RETRIES] name func env"

subsection \<open>The wrapped remote calls\<close>

definition create_thread :: "'w openai \<Rightarrow> 'w env \<Rightarrow> (error + thread option) \<times> 'w env" where
  "create_thread api env = safe_api_call Threads_create (threads_create api) env"

definition create_message ::
  "'w openai \<Rightarrow> string option \<Rightarrow> string \<Rightarrow> string \<Rightarrow> 'w env \<Rightarrow> (error + unit option) \<times> 'w env" where
  "create_message api tid r c env = safe_api_call Messages_create (messages_create api tid r c) env"

definition create_run ::
  "'w openai \<Rightarrow> string option \<Rightarrow> string \<Rightarrow> 'w env \<Rightarrow> (error + run option) \<times> 'w env" where
  "create_run api tid assistant_id env = safe_api_call Runs_create (runs_create api tid assistant_id) env"

definition get_run_status ::
  "'w openai \<Rightarrow> string option \<Rightarrow> string \<Rightarrow> 'w env \<Rightarrow> (error + run option) \<times> 'w env" where
  "get_run_status api tid rid env = safe_api_call Runs_retrieve (runs_retrieve api tid rid) env"

definition get_messages ::
  "'w openai \<Rightarrow> string option \<Rightarrow> 'w env \<Rightarrow> (error + thread_message list option) \<times> 'w env" where
  "get_messages api tid env = safe_api_call Messages_list (messages_list api tid) env"

section \<open>The run and poll engine\<close>

text \<open>
  The loop of \<^verbatim>\<open>run_assistant\<close>:
  \<^verbatim>\<open>while run.status != 'completed': time.sleep(1); run = get_run_status(state.thread_id, run.id)\<close>.
  It has no bound, so the model is a partial function: \<open>None\<close> is a loop that never
  ends. The loop variable \<^verbatim>\<open>run\<close> is whatever the last call returned, \<^verbatim>\<open>None\<close>
  included, on which reading \<^verbatim>\<open>.status\<close> raises.
\<close>

partial_function (option) poll_loop ::
  "'w openai \<Rightarrow> string option \<Rightarrow> run option \<Rightarrow> 'w env \<Rightarrow> ((error + run) \<times> 'w env) option" where
  "poll_loop api tid run env =
     (case run of
        None \<Rightarrow> Some (Inl AttributeError, env)
      | Some r \<Rightarrow>
          if status r \<noteq> ''completed'' then
            (case get_run_status api tid (ident r) (sleep 1 env) of
               (Inl e, env') \<Rightarrow> Some (Inl e, env')
             | (Inr run', env') \<Rightarrow> poll_loop api tid run' env')
          else Some (Inr r, env))"

text \<open>
  The list \<^verbatim>\<open>assistant_messages\<close>: the messages of the listing, in its order, with
  \<^verbatim>\<open>message.run_id == run.id and message.role == "assistant"\<close>.
\<close>

definition assistant_messages :: "run \<Rightarrow> thread_message list \<Rightarrow> thread_message list" where
  "assistant_messages run msgs =
     filter (\<lambda>message. run_id message = Some (ident run) \<and> message_role message = ''assistant'') msgs"

text \<open>\<^verbatim>\<open>message.content[0].text.value\<close>\<close>

definition text_value :: "thread_message \<Rightarrow> error + string" where
  "text_value message =
     (case message_content message of
        [] \<Rightarrow> Inl IndexError
      | TextBlock v # _ \<Rightarrow> Inr v
      | ImageFileBlock _ # _ \<Rightarrow> Inl AttributeError)"

text \<open>
  The loop \<^verbatim>\<open>for message in assistant_messages: state.messages.append(...)\<close>. An
  exception leaves the entries appended so far in place.
\<close>

fun append_assistant_messages :: "thread_message list \<Rightarrow> SessionState \<Rightarrow> (error + unit) \<times> SessionState" where
  "append_assistant_messages [] state = (Inr (), state)"
| "append_assistant_messages (message # rest) state =
     (case text_value message of
        Inl e \<Rightarrow> (Inl e, state)
      | Inr v \<Rightarrow>
          append_assistant_messages rest
            (state\<lparr>messages := messages state @ [\<lparr>role = ''assistant'', content = v\<rparr>]\<rparr>))"

text \<open>
  The result of a function that works on the session: \<open>None\<close> if it never returns,
  otherwise the exception raised or the value returned, with the session object and
  the environment as the function left them. The session object is mutated in place,
  so what was assigned before an exception stays assigned.
\<close>

type_synonym ('a, 'w) result = "((error + 'a) \<times> SessionState \<times> 'w env) option"

definition run_assistant :: "'w openai \<Rightarrow> SessionState \<Rightarrow> string \<Rightarrow> 'w env \<Rightarrow> (unit, 'w) result" where
  "run_assistant api state assistant_id env =
     (case create_run api (thread_id state) assistant_id env of
        (Inl e, env1) \<Rightarrow> Some (Inl e, state, env1)
      | (Inr run, env1) \<Rightarrow>
          (let state1 = state\<lparr>assistant_is_typing := True\<rparr> in
           case poll_loop api (thread_id state1) run env1 of
             None \<Rightarrow> None
           | Some (Inl e, env2) \<Rightarrow> Some (Inl e, state1, env2)
           | Some (Inr run', env2) \<Rightarrow>
               (case get_messages api (thread_id state1) env2 of
                  (Inl e, env3) \<Rightarrow> Some (Inl e, state1, env3)
                | (Inr None, env3) \<Rightarrow> Some (Inl TypeError, state1, env3)
                | (Inr (Some msgs), env3) \<Rightarrow>
                    (case append_assistant_messages (assistant_messages run' msgs) state1 of
                       (Inl e, state2) \<Rightarrow> Some (Inl e, state2, env3)
                     | (Inr u, state2) \<Rightarrow>
                         Some (Inr (), state2\<lparr>assistant_is_typing := False\<rparr>, env3)))))"

section \<open>The conversation lifecycle\<close>

definition reset_chat :: "SessionState \<Rightarrow> SessionState" where
  "reset_chat state =
     state\<lparr> messages := [], start_chat := False, thread_id := None,
            buttons_shown := False, assistant_is_typing := False,
            question_count := 0, resume_text := [], job_description_text := [],
            job_type := [], job_url := [] \<rparr>"

text \<open>
  The texts of the prompts are parameters of the model: the first seed prompt is built
  from \<^verbatim>\<open>state.job_type\<close>, \<^verbatim>\<open>state.job_description_text\<close> and
  \<^verbatim>\<open>state.resume_text\<close>, the second is a constant, and \<^verbatim>\<open>predefined_questions\<close>
  is the dictionary of \<^verbatim>\<open>chat_interface\<close>, in the order of its keys.
\<close>

record prompts =
  initial_prompt :: "string \<Rightarrow> string \<Rightarrow> string \<Rightarrow> string"
  second_prompt :: string
  predefined_questions :: "(string \<times> string) list"

definition send_initial_messages ::
  "'w openai \<Rightarrow> prompts \<Rightarrow> SessionState \<Rightarrow> string \<Rightarrow> 'w env \<Rightarrow> (unit, 'w) result" where
  "send_initial_messages api p state assistant_id env =
     (case create_message api (thread_id state) ''user''
             (initial_prompt p (job_type state) (job_description_text state) (resume_text state)) env of
        (Inl e, env1) \<Rightarrow> Some (Inl e, state, env1)
      | (Inr m1, env1) \<Rightarrow>
          (case run_assistant api state assistant_id env1 of
             None \<Rightarrow> None
           | Some (Inl e, state1, env2) \<Rightarrow> Some (Inl e, state1, env2)
           | Some (Inr u1, state1, env2) \<Rightarrow>
               (case create_message api (thread_id state1) ''user'' (second_prompt p) env2 of
                  (Inl e, env3) \<Rightarrow> Some (Inl e, state1, env3)
                | (Inr m2, env3) \<Rightarrow> run_assistant api state1 assistant_id env3)))"

text \<open>
  \<^verbatim>\<open>start_chat(state, assistant_id)\<close>; the name \<open>start_chat\<close> is the field's.
  \<^verbatim>\<open>thread.id\<close> on \<^verbatim>\<open>None\<close> raises.
\<close>

definition start_chat_fn ::
  "'w openai \<Rightarrow> prompts \<Rightarrow> SessionState \<Rightarrow> string \<Rightarrow> 'w env \<Rightarrow> (unit, 'w) result" where
  "start_chat_fn api p state assistant_id env =
     (let state1 = state\<lparr> start_chat := True, buttons_shown := False, messages := [],
                          processing := False, assistant_is_typing := False \<rparr>;
          env1 = env\<lparr>previous_question := Some ''Select a predefined question''\<rparr>
      in case create_thread api env1 of
           (Inl e, env2) \<Rightarrow> Some (Inl e, state1, env2)
         | (Inr None, env2) \<Rightarrow> Some (Inl AttributeError, state1, env2)
         | (Inr (Some thread), env2) \<Rightarrow>
             send_initial_messages api p (state1\<lparr>thread_id := Some (thread_ident thread)\<rparr>)
               assistant_id env2)"

section \<open>The chat interface and the question limit\<close>

text \<open>
  How a function that draws the page ends: \<^verbatim>\<open>st.rerun()\<close> stops the script and
  starts it again, otherwise the function returns.
\<close>

datatype control = Rerun | Returned

text \<open>
  \<^verbatim>\<open>chat_interface(state, assistant_id)\<close>. What the widgets hand back is an
  argument: \<open>user_input\<close> is the value of \<^verbatim>\<open>st.chat_input\<close> (\<open>None\<close> when
  nothing was typed) and \<open>selected_question\<close> the value of \<^verbatim>\<open>st.selectbox\<close>.
  Drawing (\<^verbatim>\<open>st.markdown\<close>, \<^verbatim>\<open>st.error\<close>, the spinner) changes nothing that
  is modelled. Both branches of the first \<^verbatim>\<open>if\<close> end in \<^verbatim>\<open>st.rerun()\<close>, so
  the second block runs only when \<open>user_input\<close> is \<^verbatim>\<open>None\<close> or empty.
\<close>

definition chat_interface ::
  "'w openai \<Rightarrow> prompts \<Rightarrow> string option \<Rightarrow> string \<Rightarrow> SessionState \<Rightarrow> string \<Rightarrow> 'w env
     \<Rightarrow> (control, 'w) result" where
  "chat_interface api p user_input selected_question state assistant_id env =
     (if user_input \<noteq> None \<and> user_input \<noteq> Some [] then
        (if question_count state < MAX_QUESTIONS_PER_SESSION then
           (let state1 = state\<lparr>question_count := question_count state + 1\<rparr>;
                state2 = state1\<lparr>messages := messages state1 @ [\<lparr>role = ''user'', content = the user_input\<rparr>]\<rparr>
            in case create_message api (thread_id state2) ''user'' (the user_input) env of
                 (Inl e, env1) \<Rightarrow> Some (Inl e, state2, env1)
               | (Inr m, env1) \<Rightarrow>
                   (case run_assistant api state2 assistant_id env1 of
                      None \<Rightarrow> None
                    | Some (Inl e, state3, env2) \<Rightarrow> Some (Inl e, state3, env2)
                    | Some (Inr u, state3, env2) \<Rightarrow> Some (Inr Rerun, state3, env2)))
         else Some (Inr Rerun, reset_chat state, env))
      else if start_chat state \<and> \<not> assistant_is_typing state then
        (let env0 = (if previous_question env = None
                     then env\<lparr>previous_question := Some ''Select a predefined question''\<rparr>
                     else env)
         in if selected_question \<noteq> ''Select a predefined question''
               \<and> Some selected_question \<noteq> previous_question env0 then
              (if question_count state < MAX_QUESTIONS_PER_SESSION then
                 (let state1 = state\<lparr>question_count := question_count state + 1\<rparr>
                  in case map_of (predefined_questions p) selected_question of
                       None \<Rightarrow> Some (Inl KeyError, state1, env0)
                     | Some detailed_question \<Rightarrow>
                         (let state2 = state1\<lparr>messages := messages state1
                                            @ [\<lparr>role = ''user'', content = selected_question\<rparr>]\<rparr>
                          in case create_message api (thread_id state2) ''user'' detailed_question env0 of
                               (Inl e, env1) \<Rightarrow> Some (Inl e, state2, env1)
                             | (Inr m, env1) \<Rightarrow>
                                 (case run_assistant api state2 assistant_id env1 of
                                    None \<Rightarrow> None
                                  | Some (Inl e, state3, env2) \<Rightarrow> Some (Inl e, state3, env2)
                                  | Some (Inr u, state3, env2) \<Rightarrow>
                                      Some (Inr Rerun, state3,
                                            env2\<lparr>previous_question := Some selected_question\<rparr>))))
               else Some (Inr Rerun, reset_chat state, env0))
            else Some (Inr Returned, state, env0))
      else Some (Inr Returned, state, env))"

text \<open>
  The first thing \<^verbatim>\<open>main\<close> does with the session (the check of
  \<^verbatim>\<open>state.question_count >= MAX_QUESTIONS_PER_SESSION\<close>): at the limit it draws
  the error and the button \<^verbatim>\<open>Start New Session\<close> and returns, and the rest of the
  page, the chat interface included, is not reached. \<open>None\<close> is the check not
  firing, after which \<^verbatim>\<open>main\<close> goes on.
\<close>

definition main_question_limit :: "bool \<Rightarrow> SessionState \<Rightarrow> (control \<times> SessionState) option" where
  "main_question_limit start_new_session state =
     (if question_count state \<ge> MAX_QUESTIONS_PER_SESSION then
        (if start_new_session then Some (Rerun, reset_chat state) else Some (Returned, state))
      else None)"

section \<open>Vocabulary of the properties\<close>

text \<open>
  A transcript entry written for a message of the remote listing: its role is
  \<^verbatim>\<open>assistant\<close> and its content is the text of the message's first content block,
  which is a text block.
\<close>

definition entry_of :: "thread_message \<Rightarrow> chat_message \<Rightarrow> bool" where
  "entry_of message entry \<longleftrightarrow>
     role entry = ''assistant''
     \<and> (case message_content message of
           TextBlock v # rest \<Rightarrow> content entry = v
         | _ \<Rightarrow> False)"

section \<open>Remote services used as examples\<close>

text \<open>A remote function that fails with a transient error twice and then returns.\<close>

definition fails_twice :: "nat \<Rightarrow> nat outcome \<times> nat" where
  "fails_twice w = (if w < 2 then Raises_OpenAIError ''timeout'' else Returns w, Suc w)"

text \<open>
  A remote service that answers from a script: each remote function has a list of
  outcomes and hands them out in order; the last one is repeated for ever, so that a
  run that has reached a status stays there. The arguments of the calls are ignored.
\<close>

record script =
  on_threads_create :: "thread outcome list"
  on_messages_create :: "unit outcome list"
  on_runs_create :: "run outcome list"
  on_runs_retrieve :: "run outcome list"
  on_messages_list :: "thread_message list outcome list"

fun reply :: "'a outcome list \<Rightarrow> 'a outcome \<times> 'a outcome list" where
  "reply [] = (Raises_Exception ''nothing scripted'', [])"
| "reply [x] = (x, [x])"
| "reply (x # y # ys) = (x, y # ys)"

definition scripted :: "script openai" where
  "scripted =
     \<lparr> threads_create = (\<lambda>w. case reply (on_threads_create w) of
                                 (out, rest) \<Rightarrow> (out, w\<lparr>on_threads_create := rest\<rparr>)),
       messages_create = (\<lambda>tid r c w. case reply (on_messages_create w) of
                                 (out, rest) \<Rightarrow> (out, w\<lparr>on_messages_create := rest\<rparr>)),
       runs_create = (\<lambda>tid a w. case reply (on_runs_create w) of
                                 (out, rest) \<Rightarrow> (out, w\<lparr>on_runs_create := rest\<rparr>)),
       runs_retrieve = (\<lambda>tid rid w. case reply (on_runs_retrieve w) of
                                 (out, rest) \<Rightarrow> (out, w\<lparr>on_runs_retrieve := rest\<rparr>)),
       messages_list = (\<lambda>tid w. case reply (on_messages_list w) of
                                 (out, rest) \<Rightarrow> (out, w\<lparr>on_messages_list := rest\<rparr>)) \<rparr>"

text \<open>An environment in which nothing has happened yet.\<close>

definition starting :: "'w \<Rightarrow> 'w env" where
  "starting w = \<lparr>world = w, trace = [], previous_question = None\<rparr>"

text \<open>
  Sessions: one in the middle of a chat, whose user has asked one question, and one
  whose thread has just been created.
\<close>

definition asking :: SessionState where
  "asking = SessionState_init\<lparr> start_chat := True, thread_id := Some ''T1'',
              messages := [\<lparr>role = ''user'', content = ''Hello''\<rparr>], question_count := 1 \<rparr>"

definition seeded_thread :: SessionState where
  "seeded_thread = SessionState_init\<lparr>start_chat := True, thread_id := Some ''T1''\<rparr>"

definition canned :: prompts where
  "canned =
     \<lparr> initial_prompt = (\<lambda>job_type job_description notes.
          ''Role: '' @ job_type @ ''. Job: '' @ job_description @ ''. Notes: '' @ notes),
       second_prompt = ''Write the connection requests.'',
       predefined_questions =
         [(''Select a predefined question'', []),
          (''Cold Email | Hiring Manager'', ''Craft a cold email to the hiring manager.'')] \<rparr>"

text \<open>
  Scripts. In \<open>run_fails\<close> and \<open>run_expires\<close> the run ends in a terminal status
  other than \<^verbatim>\<open>completed\<close>; in \<open>status_unreachable\<close> every status fetch raises;
  in \<open>listing_fails\<close> the run completes and the listing of messages raises; in
  \<open>thread_service_down\<close> and \<open>thread_service_busy\<close> the creation of a thread
  raises; \<open>seeding\<close> serves a whole start of a chat and \<open>four_polls\<close> a run that
  completes at the fourth status fetch.
\<close>

definition run_fails :: script where
  "run_fails =
     \<lparr> on_threads_create = [Returns (Thread ''T1'')],
       on_messages_create = [Returns ()],
       on_runs_create = [Returns (Run ''run_1'' ''queued'')],
       on_runs_retrieve = [Returns (Run ''run_1'' ''in_progress''), Returns (Run ''run_1'' ''failed'')],
       on_messages_list = [Returns []] \<rparr>"

definition run_expires :: script where
  "run_expires =
     \<lparr> on_threads_create = [Returns (Thread ''T1'')],
       on_messages_create = [Returns ()],
       on_runs_create = [Returns (Run ''run_7'' ''queued'')],
       on_runs_retrieve = [Returns (Run ''run_7'' ''expired'')],
       on_messages_list = [Returns []] \<rparr>"

definition status_unreachable :: script where
  "status_unreachable =
     \<lparr> on_threads_create = [Returns (Thread ''T1'')],
       on_messages_create = [Returns ()],
       on_runs_create = [Returns (Run ''run_1'' ''queued'')],
       on_runs_retrieve = [Raises_OpenAIError ''timed out''],
       on_messages_list = [Returns []] \<rparr>"

definition listing_fails :: script where
  "listing_fails =
     \<lparr> on_threads_create = [Returns (Thread ''T1'')],
       on_messages_create = [Returns ()],
       on_runs_create = [Returns (Run ''run_1'' ''queued'')],
       on_runs_retrieve = [Returns (Run ''run_1'' ''completed'')],
       on_messages_list = [Raises_Exception ''bad request''] \<rparr>"

definition thread_service_down :: script where
  "thread_service_down =
     \<lparr> on_threads_create = [Raises_OpenAIError ''unavailable''],
       on_messages_create = [Returns ()],
       on_runs_create = [Returns (Run ''run_1'' ''queued'')],
       on_runs_retrieve = [Returns (Run ''run_1'' ''completed'')],
       on_messages_list = [Returns []] \<rparr>"

definition thread_service_busy :: script where
  "thread_service_busy =
     \<lparr> on_threads_create = [Raises_OpenAIError ''rate limit'', Raises_OpenAIError ''overloaded'',
                            Returns (Thread ''T9'')],
       on_messages_create = [Returns ()],
       on_runs_create = [Returns (Run ''run_1'' ''queued'')],
       on_runs_retrieve = [Returns (Run ''run_1'' ''completed'')],
       on_messages_list = [Returns []] \<rparr>"

definition seeding :: script where
  "seeding =
     \<lparr> on_threads_create = [Returns (Thread ''T1'')],
       on_messages_create = [Returns ()],
       on_runs_create = [Returns (Run ''run_1'' ''queued''), Returns (Run ''run_2'' ''queued'')],
       on_runs_retrieve = [Returns (Run ''run_1'' ''completed''), Returns (Run ''run_2'' ''in_progress''),
                           Returns (Run ''run_2'' ''completed'')],
       on_messages_list =
         [Returns [\<lparr>run_id = Some ''run_1'', message_role = ''assistant'',
                     message_content = [TextBlock ''Analysis'']\<rparr>,
                   \<lparr>run_id = None, message_role = ''user'', message_content = [TextBlock ''Seed 1'']\<rparr>],
          Returns [\<lparr>run_id = Some ''run_2'', message_role = ''assistant'',
                     message_content = [TextBlock ''Drafts'']\<rparr>,
                   \<lparr>run_id = None, message_role = ''user'', message_content = [TextBlock ''Seed 2'']\<rparr>,
                   \<lparr>run_id = Some ''run_1'', message_role = ''assistant'',
                     message_content = [TextBlock ''Analysis'']\<rparr>,
                   \<lparr>run_id = None, message_role = ''user'', message_content = [TextBlock ''Seed 1'']\<rparr>]] \<rparr>"

definition four_polls :: script where
  "four_polls =
     \<lparr> on_threads_create = [Returns (Thread ''T1'')],
       on_messages_create = [Returns ()],
       on_runs_create = [Returns (Run ''run_4'' ''queued'')],
       on_runs_retrieve = [Returns (Run ''run_4'' ''queued''), Returns (Run ''run_4'' ''in_progress''),
                           Returns (Run ''run_4'' ''in_progress''), Returns (Run ''run_4'' ''completed'')],
       on_messages_list =
         [Returns [\<lparr>run_id = Some ''run_4'', message_role = ''assistant'',
                     message_content = [TextBlock ''Hi there'']\<rparr>,
                   \<lparr>run_id = None, message_role = ''user'', message_content = [TextBlock ''Hello'']\<rparr>,
                   \<lparr>run_id = Some ''run_3'', message_role = ''assistant'',
                     message_content = [TextBlock ''Earlier reply'']\<rparr>]] \<rparr>"

text \<open>A script in which no status fetch will ever report \<^verbatim>\<open>completed\<close>.\<close>

definition stuck :: "script \<Rightarrow> bool" where
  "stuck w \<longleftrightarrow> on_runs_retrieve w \<noteq> []
     \<and> list_all (\<lambda>out. case out of Returns r \<Rightarrow> status r \<noteq> ''completed'' | _ \<Rightarrow> False) (on_runs_retrieve w)"

section \<open>The retry executor: properties\<close>

lemma upt_MAX_RETRIES: "[0..<MAX_RETRIES] = [0, 1, 2]"
  by (simp add: MAX_RETRIES_def upt_rec)

text \<open>
  What \<open>safe_api_call\<close> comes to: one invocation, whose value is returned and whose
  exception, of either kind, is replaced by \<open>AttributeError\<close>.
\<close>

lemma safe_api_call_unfold:
  "safe_api_call name func env =
     (case invoke name func env of
        (Returns v, env1) \<Rightarrow> (Inr (Some v), env1)
      | (Raises_OpenAIError e, env1) \<Rightarrow> (Inl AttributeError, env1)
      | (Raises_Exception e, env1) \<Rightarrow> (Inl AttributeError, env1))"
  unfolding safe_api_call_def upt_MAX_RETRIES
  by (simp add: openai_error_def split: prod.split outcome.split)

lemma invoke_eq:
  "invoke name func env =
     (fst (func (world env)),
      env\<lparr>world := snd (func (world env)), trace := trace env @ [Call name]\<rparr>)"
  by (simp add: invoke_def split: prod.split)

lemma safe_api_call_returns_first:
  "func (world env) = (Returns v, w') \<Longrightarrow>
   safe_api_call name func env = (Inr (Some v), env\<lparr>world := w', trace := trace env @ [Call name]\<rparr>)"
  by (simp add: safe_api_call_unfold invoke_eq)

lemma safe_api_call_effects:
  assumes "safe_api_call name func env = (res, env')"
  shows "\<exists>t. trace env' = trace env @ t
             \<and> list_all (\<lambda>ev. ev = Call name \<or> (\<exists>d. ev = Sleep d)) t"
proof -
  from assms have "trace env' = trace env @ [Call name]"
    by (auto simp: safe_api_call_unfold invoke_eq split: outcome.splits)
  then have "trace env' = trace env @ [Call name]
             \<and> list_all (\<lambda>ev. ev = Call name \<or> (\<exists>d. ev = Sleep d)) [Call name]"
    by simp
  then show ?thesis ..
qed

lemma get_run_status_returns_first:
  "runs_retrieve api tid rid (world env) = (Returns r, w') \<Longrightarrow>
   get_run_status api tid rid env =
     (Inr (Some r), env\<lparr>world := w', trace := trace env @ [Call Runs_retrieve]\<rparr>)"
  unfolding get_run_status_def by (rule safe_api_call_returns_first)

lemma world_sleep [simp]: "world (sleep d env) = world env"
  by (simp add: sleep_def)

lemmas remote_calls = create_thread_def create_message_def create_run_def get_run_status_def
  get_messages_def safe_api_call_unfold invoke_eq sleep_def scripted_def starting_def

text \<open>
  C3, which the code does not meet. \<open>safe_api_call\<close> is written to invoke the wrapped
  remote function up to \<open>MAX_RETRIES\<close> = 3 times, to sleep \<open>RETRY_DELAY\<close> between two
  attempts and to raise \<open>APIError\<close> when the third attempt fails. Its \<^verbatim>\<open>except\<close>
  clause names \<^verbatim>\<open>openai.error.OpenAIError\<close>, which cannot be evaluated, so the first
  exception of the wrapped function is replaced by \<open>AttributeError\<close> and leaves the
  call: one invocation, no sleep, no second attempt, no \<open>APIError\<close>. On a remote
  function that raises a transient error twice and would return at the third
  invocation, the call raises \<open>AttributeError\<close> after the first invocation.
\<close>

theorem safe_api_call_gives_up_at_first_failure:
  "safe_api_call Runs_create fails_twice \<lparr>world = 0, trace = [], previous_question = None\<rparr> =
     (Inl AttributeError,
      \<lparr>world = 1, trace = [Call Runs_create], previous_question = None\<rparr>)"
  by (simp add: safe_api_call_unfold invoke_eq fails_twice_def)

section \<open>The poll loop: properties\<close>

text \<open>The loop ends normally only on a run whose status is \<^verbatim>\<open>completed\<close>.\<close>

lemma poll_loop_completed_aux:
  assumes "poll_loop api tid run env = Some y"
  shows "\<forall>r env'. y = (Inr r, env') \<longrightarrow> status r = ''completed''"
  using assms
proof (induct rule: poll_loop.raw_induct [rotated 1, consumes 1, case_names body])
  case (body poll_loop api tid run env y)
  then show ?case
    by (auto split: option.splits if_splits prod.splits sum.splits)
qed

lemma poll_loop_completed:
  "poll_loop api tid run env = Some (Inr r, env') \<Longrightarrow> status r = ''completed''"
  using poll_loop_completed_aux by blast

text \<open>
  If every status fetch returns a run that is not \<^verbatim>\<open>completed\<close>, the loop never
  ends. \<open>I\<close> is what stays true of the remote service from one fetch to the next.
\<close>

lemma poll_loop_never_returns_aux:
  assumes step: "\<And>w rid. I w \<Longrightarrow>
      \<exists>r w'. runs_retrieve api tid rid w = (Returns r, w') \<and> status r \<noteq> ''completed'' \<and> I w'"
    and ret: "poll_loop api' tid' run env = Some y"
  shows "api' = api \<longrightarrow> tid' = tid \<longrightarrow> (\<forall>r. run = Some r \<longrightarrow> status r \<noteq> ''completed''
         \<longrightarrow> I (world env) \<longrightarrow> False)"
  using ret
proof (induct rule: poll_loop.raw_induct [rotated 1, consumes 1, case_names body])
  case (body poll_loop api' tid' run env y)
  show ?case
  proof (intro impI allI)
    fix r
    assume eq: "api' = api" "tid' = tid" "run = Some r"
      and nc: "status r \<noteq> ''completed''" and inv: "I (world env)"
    from step [of "world (sleep 1 env)" "ident r"] inv
    obtain r' w' where r': "runs_retrieve api tid (ident r) (world (sleep 1 env)) = (Returns r', w')"
      "status r' \<noteq> ''completed''" "I w'"
      by auto
    let ?env' = "(sleep 1 env)\<lparr>world := w', trace := trace (sleep 1 env) @ [Call Runs_retrieve]\<rparr>"
    have g: "get_run_status api tid (ident r) (sleep 1 env) = (Inr (Some r'), ?env')"
      unfolding get_run_status_def using r'(1) by (rule safe_api_call_returns_first)
    from body(2) eq nc g have "poll_loop api tid (Some r') ?env' = Some y"
      by simp
    from body(1) [OF this] r'(2,3) show False
      by simp
  qed
qed

lemma poll_loop_never_returns:
  assumes "\<And>w rid. I w \<Longrightarrow>
      \<exists>r w'. runs_retrieve api tid rid w = (Returns r, w') \<and> status r \<noteq> ''completed'' \<and> I w'"
    and "status r \<noteq> ''completed''" and "I (world env)"
  shows "poll_loop api tid (Some r) env = None"
proof (cases "poll_loop api tid (Some r) env")
  case (Some y)
  from poll_loop_never_returns_aux [of I api tid, OF assms(1) Some] assms(2,3)
  show ?thesis by simp
qed simp

lemma stuck_step:
  "stuck w \<Longrightarrow> \<exists>r w'. runs_retrieve scripted tid rid w = (Returns r, w')
             \<and> status r \<noteq> ''completed'' \<and> stuck w'"
  by (cases "on_runs_retrieve w" rule: reply.cases)
     (auto simp: stuck_def scripted_def split: outcome.splits)

text \<open>One turn of the loop, and its end.\<close>

lemma poll_loop_fetch:
  assumes "status r \<noteq> ''completed''"
    and "runs_retrieve api tid (ident r) (world env) = (Returns r', w')"
  shows "poll_loop api tid (Some r) env =
         poll_loop api tid (Some r')
           (env\<lparr>world := w', trace := trace env @ [Sleep 1, Call Runs_retrieve]\<rparr>)"
proof -
  from assms(2) have "runs_retrieve api tid (ident r) (world (sleep 1 env)) = (Returns r', w')"
    by simp
  from get_run_status_returns_first [OF this] assms(1) show ?thesis
    by (subst poll_loop.simps) (simp add: sleep_def)
qed

lemma poll_loop_stop:
  "status r = ''completed'' \<Longrightarrow> poll_loop api tid (Some r) env = Some (Inr r, env)"
  by (subst poll_loop.simps) simp

section \<open>\<open>run_assistant\<close>: properties\<close>

lemma entry_of_text_value:
  "entry_of message entry \<longleftrightarrow> role entry = ''assistant'' \<and> text_value message = Inr (content entry)"
  by (auto simp: entry_of_def text_value_def split: list.splits content_block.splits)

lemma append_assistant_messages_result:
  "append_assistant_messages ms state = (res, state') \<Longrightarrow>
   \<exists>k new. k \<le> length ms \<and> list_all2 entry_of (take k ms) new
      \<and> state' = state\<lparr>messages := messages state @ new\<rparr>
      \<and> (res = Inr () \<and> k = length ms
          \<or> (\<exists>e. res = Inl e \<and> k < length ms \<and> text_value (ms ! k) = Inl e))"
proof (induction ms arbitrary: state)
  case Nil
  then show ?case by auto
next
  case (Cons m ms)
  show ?case
  proof (cases "text_value m")
    case (Inl e)
    with Cons.prems have "res = Inl e" "state' = state" by auto
    with Inl have "0 \<le> length (m # ms) \<and> list_all2 entry_of (take 0 (m # ms)) []
      \<and> state' = state\<lparr>messages := messages state @ []\<rparr>
      \<and> (res = Inr () \<and> 0 = length (m # ms)
          \<or> (\<exists>e. res = Inl e \<and> 0 < length (m # ms) \<and> text_value ((m # ms) ! 0) = Inl e))"
      by simp
    then show ?thesis by blast
  next
    case (Inr v)
    let ?e = "\<lparr>role = ''assistant'', content = v\<rparr>"
    let ?st = "state\<lparr>messages := messages state @ [?e]\<rparr>"
    from Cons.prems Inr have "append_assistant_messages ms ?st = (res, state')"
      by simp
    from Cons.IH [OF this] obtain k new where
      k: "k \<le> length ms" "list_all2 entry_of (take k ms) new"
         "state' = ?st\<lparr>messages := messages ?st @ new\<rparr>"
         "res = Inr () \<and> k = length ms
          \<or> (\<exists>e. res = Inl e \<and> k < length ms \<and> text_value (ms ! k) = Inl e)"
      by blast
    have "Suc k \<le> length (m # ms) \<and> list_all2 entry_of (take (Suc k) (m # ms)) (?e # new)
      \<and> state' = state\<lparr>messages := messages state @ ?e # new\<rparr>
      \<and> (res = Inr () \<and> Suc k = length (m # ms)
          \<or> (\<exists>e. res = Inl e \<and> Suc k < length (m # ms) \<and> text_value ((m # ms) ! Suc k) = Inl e))"
      using k Inr by (simp add: entry_of_text_value)
    then show ?thesis by blast
  qed
qed

lemma entries_assistant:
  "list_all2 entry_of ms new \<Longrightarrow> list_all (\<lambda>entry. role entry = ''assistant'') new"
  by (induction rule: list_all2_induct) (simp_all add: entry_of_def)

text \<open>
  Every way \<open>run_assistant\<close> can end: the creation of the run fails; the poll loop
  fails; the listing of messages fails; reading the text of a message fails after \<open>k\<close>
  entries have been appended; or all entries are appended and the call returns.
\<close>

lemma run_assistant_result:
  assumes "run_assistant api state aid env = Some (res, state', env')"
  shows "(\<exists>e. res = Inl e \<and> state' = state
             \<and> create_run api (thread_id state) aid env = (Inl e, env'))
       \<or> (\<exists>run0 env1 e. res = Inl e \<and> state' = state\<lparr>assistant_is_typing := True\<rparr>
             \<and> create_run api (thread_id state) aid env = (Inr run0, env1)
             \<and> poll_loop api (thread_id state) run0 env1 = Some (Inl e, env'))
       \<or> (\<exists>run0 env1 r env2.
             create_run api (thread_id state) aid env = (Inr run0, env1)
             \<and> poll_loop api (thread_id state) run0 env1 = Some (Inr r, env2)
             \<and> status r = ''completed''
             \<and> ((\<exists>e. res = Inl e \<and> state' = state\<lparr>assistant_is_typing := True\<rparr>
                     \<and> (get_messages api (thread_id state) env2 = (Inl e, env')
                         \<or> e = TypeError \<and> get_messages api (thread_id state) env2 = (Inr None, env')))
                \<or> (\<exists>msgs k new.
                      get_messages api (thread_id state) env2 = (Inr (Some msgs), env')
                      \<and> k \<le> length (assistant_messages r msgs)
                      \<and> list_all2 entry_of (take k (assistant_messages r msgs)) new
                      \<and> ((\<exists>e. res = Inl e \<and> k < length (assistant_messages r msgs)
                              \<and> text_value (assistant_messages r msgs ! k) = Inl e
                              \<and> state' = state\<lparr>assistant_is_typing := True,
                                                 messages := messages state @ new\<rparr>)
                          \<or> (res = Inr () \<and> k = length (assistant_messages r msgs)
                              \<and> state' = state\<lparr>assistant_is_typing := False,
                                                 messages := messages state @ new\<rparr>)))))"
proof (cases "create_run api (thread_id state) aid env")
  case (Pair c env1)
  show ?thesis
  proof (cases c)
    case (Inl e)
    with Pair assms show ?thesis by (simp add: run_assistant_def Let_def)
  next
    case (Inr run0)
    let ?st = "state\<lparr>assistant_is_typing := True\<rparr>"
    from assms Pair Inr obtain pr env2 where
      poll: "poll_loop api (thread_id state) run0 env1 = Some (pr, env2)"
      by (cases "poll_loop api (thread_id state) run0 env1") (auto simp: run_assistant_def Let_def)
    show ?thesis
    proof (cases pr)
      case (Inl e)
      with assms Pair Inr poll show ?thesis by (simp add: run_assistant_def Let_def)
    next
      case r: (Inr r)
      with poll have compl: "status r = ''completed''"
        by (simp add: poll_loop_completed)
      obtain g env3 where gm: "get_messages api (thread_id state) env2 = (g, env3)"
        by (cases "get_messages api (thread_id state) env2")
      show ?thesis
      proof (cases g)
        case (Inl e)
        with assms Pair Inr poll r gm compl show ?thesis by (simp add: run_assistant_def Let_def)
      next
        case g: (Inr listing)
        show ?thesis
        proof (cases listing)
          case None
          with assms Pair Inr poll r gm g compl show ?thesis by (simp add: run_assistant_def Let_def)
        next
          case (Some msgs)
          obtain ar st2 where
            app: "append_assistant_messages (assistant_messages r msgs) ?st = (ar, st2)"
            by (cases "append_assistant_messages (assistant_messages r msgs) ?st")
          from append_assistant_messages_result [OF app] obtain k new where
            k: "k \<le> length (assistant_messages r msgs)"
               "list_all2 entry_of (take k (assistant_messages r msgs)) new"
               "st2 = ?st\<lparr>messages := messages ?st @ new\<rparr>"
               "ar = Inr () \<and> k = length (assistant_messages r msgs)
                \<or> (\<exists>e. ar = Inl e \<and> k < length (assistant_messages r msgs)
                        \<and> text_value (assistant_messages r msgs ! k) = Inl e)"
            by blast
          have "env' = env3 \<and>
                ((\<exists>e. res = Inl e \<and> k < length (assistant_messages r msgs)
                              \<and> text_value (assistant_messages r msgs ! k) = Inl e
                              \<and> state' = state\<lparr>assistant_is_typing := True,
                                                 messages := messages state @ new\<rparr>)
                 \<or> (res = Inr () \<and> k = length (assistant_messages r msgs)
                              \<and> state' = state\<lparr>assistant_is_typing := False,
                                                 messages := messages state @ new\<rparr>))"
            using assms Pair Inr poll r gm g Some app k(3,4)
            by (cases ar) (auto simp: run_assistant_def Let_def)
          with Pair Inr poll r gm g Some compl k(1,2) show ?thesis
            by blast
        qed
      qed
    qed
  qed
qed

lemma run_assistant_frame:
  assumes "run_assistant api state aid env = Some (res, state', env')"
  shows "\<exists>new b. state' = state\<lparr>messages := messages state @ new, assistant_is_typing := b\<rparr>
           \<and> list_all (\<lambda>entry. role entry = ''assistant'') new
           \<and> (res = Inr () \<longrightarrow> b = False)"
proof -
  have found: "?thesis"
    if "state' = state\<lparr>assistant_is_typing := b, messages := messages state @ new\<rparr>"
      and "list_all (\<lambda>entry. role entry = ''assistant'') new" and "res = Inr () \<longrightarrow> b = False"
    for b new
  proof -
    from that have "state' = state\<lparr>messages := messages state @ new, assistant_is_typing := b\<rparr>
           \<and> list_all (\<lambda>entry. role entry = ''assistant'') new
           \<and> (res = Inr () \<longrightarrow> b = False)"
      by simp
    then show ?thesis by blast
  qed
  from run_assistant_result [OF assms] show ?thesis
    apply (elim disjE exE conjE)
    subgoal by (rule found [where b = "assistant_is_typing state" and new = "[]"]) simp_all
    subgoal by (rule found [where b = True and new = "[]"]) simp_all
    subgoal by (rule found [where b = True and new = "[]"]) simp_all
    subgoal by (rule found [where b = True and new = "[]"]) simp_all
    subgoal for run0 env1 r env2 msgs k new
      by (rule found [where b = True and new = new]) (simp_all add: entries_assistant)
    subgoal for run0 env1 r env2 msgs k new
      by (rule found [where b = False and new = new]) (simp_all add: entries_assistant)
    done
qed

lemma run_assistant_flag:
  assumes "run_assistant api state aid env = Some (res, state', env')"
  shows "(case res of
            Inr u \<Rightarrow> assistant_is_typing state' = False
          | Inl e \<Rightarrow>
              (case fst (create_run api (thread_id state) aid env) of
                 Inl e' \<Rightarrow> assistant_is_typing state' = assistant_is_typing state
               | Inr run \<Rightarrow> assistant_is_typing state' = True))"
  using run_assistant_result [OF assms]
  by (elim disjE exE conjE) simp_all

lemma run_assistant_success:
  assumes "run_assistant api state aid env = Some (Inr u, state', env')"
  shows "\<exists>run0 env1 r env2 msgs new.
           create_run api (thread_id state) aid env = (Inr run0, env1)
         \<and> poll_loop api (thread_id state) run0 env1 = Some (Inr r, env2)
         \<and> status r = ''completed''
         \<and> get_messages api (thread_id state) env2 = (Inr (Some msgs), env')
         \<and> list_all2 entry_of (assistant_messages r msgs) new
         \<and> state' = state\<lparr>assistant_is_typing := False, messages := messages state @ new\<rparr>"
  using run_assistant_result [OF assms]
proof (elim disjE exE conjE)
  fix run0 env1 r env2 msgs k new
  assume "create_run api (thread_id state) aid env = (Inr run0, env1)"
    "poll_loop api (thread_id state) run0 env1 = Some (Inr r, env2)"
    "status r = ''completed''"
    "get_messages api (thread_id state) env2 = (Inr (Some msgs), env')"
    "list_all2 entry_of (take k (assistant_messages r msgs)) new"
    "k = length (assistant_messages r msgs)"
    "state' = state\<lparr>assistant_is_typing := False, messages := messages state @ new\<rparr>"
  then have "create_run api (thread_id state) aid env = (Inr run0, env1)
         \<and> poll_loop api (thread_id state) run0 env1 = Some (Inr r, env2)
         \<and> status r = ''completed''
         \<and> get_messages api (thread_id state) env2 = (Inr (Some msgs), env')
         \<and> list_all2 entry_of (assistant_messages r msgs) new
         \<and> state' = state\<lparr>assistant_is_typing := False, messages := messages state @ new\<rparr>"
    by simp
  then show ?thesis by (intro exI)
qed simp_all

lemma run_assistant_question_count:
  assumes "run_assistant api state aid env = Some (res, state', env')"
  shows "question_count state' = question_count state"
proof -
  from run_assistant_frame [OF assms] obtain new b where
    "state' = state\<lparr>messages := messages state @ new, assistant_is_typing := b\<rparr>"
    by blast
  then show ?thesis by simp
qed

text \<open>
  C1, as the code has it. The source declares no error for a run that ends in
  \<^verbatim>\<open>failed\<close>, \<^verbatim>\<open>cancelled\<close> or \<^verbatim>\<open>expired\<close>: the loop of
  \<open>run_assistant\<close> leaves only on \<^verbatim>\<open>completed\<close>. If the run was created with a
  status other than \<^verbatim>\<open>completed\<close> and every status fetch from then on returns a
  status other than \<^verbatim>\<open>completed\<close> (as after the run has reached one of the three
  terminal statuses), \<open>run_assistant\<close> never returns: it raises nothing and never
  reaches the statements that append assistant entries.
\<close>

theorem run_assistant_polls_forever:
  assumes "create_run api (thread_id state) assistant_id env = (Inr (Some created), env1)"
    and "status created \<noteq> ''completed''"
    and "I (world env1)"
    and "\<And>w rid. I w \<Longrightarrow>
      \<exists>r w'. runs_retrieve api (thread_id state) rid w = (Returns r, w')
             \<and> status r \<noteq> ''completed'' \<and> I w'"
  shows "run_assistant api state assistant_id env = None"
  using assms(1) poll_loop_never_returns [of I api "thread_id state" created env1, OF assms(4) assms(2,3)]
  by (simp add: run_assistant_def)

text \<open>A run that is \<^verbatim>\<open>expired\<close> at every fetch.\<close>

theorem run_assistant_polls_forever_witness:
  "run_assistant scripted asking ''asst_1'' (starting run_expires) = None"
proof (rule run_assistant_polls_forever [where I = stuck and created = "Run ''run_7'' ''queued''"])
  show "create_run scripted (thread_id asking) ''asst_1'' (starting run_expires)
      = (Inr (Some (Run ''run_7'' ''queued'')),
         (starting run_expires)\<lparr>world := run_expires, trace := [Call Runs_create]\<rparr>)"
    by (simp add: remote_calls run_expires_def)
  show "\<And>w rid. stuck w \<Longrightarrow>
      \<exists>r w'. runs_retrieve scripted (thread_id asking) rid w = (Returns r, w')
             \<and> status r \<noteq> ''completed'' \<and> stuck w'"
    by (rule stuck_step)
qed (simp_all add: stuck_def run_expires_def)

text \<open>
  The claim of an error carrying the status fails on a run that goes from
  \<^verbatim>\<open>queued\<close> to \<^verbatim>\<open>in_progress\<close> to \<^verbatim>\<open>failed\<close>: the call does not end.
\<close>

lemma run_fails_poll:
  "run_assistant scripted asking ''asst_1'' (starting run_fails) = None"
proof -
  have c: "create_run scripted (thread_id asking) ''asst_1'' (starting run_fails)
      = (Inr (Some (Run ''run_1'' ''queued'')),
         (starting run_fails)\<lparr>world := run_fails, trace := [Call Runs_create]\<rparr>)"
    by (simp add: create_run_def safe_api_call_unfold invoke_eq scripted_def run_fails_def starting_def)
  have "poll_loop scripted (thread_id asking) (Some (Run ''run_1'' ''queued''))
           ((starting run_fails)\<lparr>world := run_fails, trace := [Call Runs_create]\<rparr>) = None"
  proof (rule poll_loop_never_returns [of stuck])
    show "\<And>w rid. stuck w \<Longrightarrow>
      \<exists>r w'. runs_retrieve scripted (thread_id asking) rid w = (Returns r, w')
             \<and> status r \<noteq> ''completed'' \<and> stuck w'"
      by (rule stuck_step)
  qed (simp_all add: stuck_def run_fails_def)
  with c show ?thesis
    by (simp add: run_assistant_def)
qed

theorem run_assistant_failed_run_counterexample:
  "run_assistant scripted asking ''asst_1'' (starting run_fails) = None"
  by (rule run_fails_poll)

text \<open>
  C9, as the code has it. \<open>assistant_is_typing\<close> is set once the run has been
  created and cleared by the last statement of \<open>run_assistant\<close>; nothing clears it
  when an exception leaves the function. So: after a normal return the flag is false;
  after an exception raised once the run exists (by a status fetch, by the listing of
  messages, by reading the text of a message) the flag is true; after a failed
  creation of the run the flag is what it was before the call.
\<close>

theorem assistant_is_typing_release:
  assumes "run_assistant api state assistant_id env = Some (res, state', env')"
  shows "(case res of
            Inr u \<Rightarrow> assistant_is_typing state' = False
          | Inl e \<Rightarrow>
              (case fst (create_run api (thread_id state) assistant_id env) of
                 Inl e' \<Rightarrow> assistant_is_typing state' = assistant_is_typing state
               | Inr run \<Rightarrow> assistant_is_typing state' = True))"
  using assms by (rule run_assistant_flag)

lemma listing_fails_result:
  "run_assistant scripted asking ''asst_1'' (starting listing_fails) =
     Some (Inl AttributeError,
           asking\<lparr>assistant_is_typing := True\<rparr>,
           \<lparr>world = listing_fails,
            trace = [Call Runs_create, Sleep 1, Call Runs_retrieve, Call Messages_list],
            previous_question = None\<rparr>)"
  by (simp add: run_assistant_def poll_loop.simps remote_calls listing_fails_def asking_def)

text \<open>The listing of messages raises after the run has completed: the flag stays true.\<close>

theorem assistant_is_typing_release_witness:
  "run_assistant scripted asking ''asst_1'' (starting listing_fails) =
     Some (Inl AttributeError,
           asking\<lparr>assistant_is_typing := True\<rparr>,
           \<lparr>world = listing_fails,
            trace = [Call Runs_create, Sleep 1, Call Runs_retrieve, Call Messages_list],
            previous_question = None\<rparr>)
   \<and> assistant_is_typing (asking\<lparr>assistant_is_typing := True\<rparr>) = True"
  using assistant_is_typing_release [OF listing_fails_result] listing_fails_result
  by simp

text \<open>
  The flag is not released on every exit: when the status fetch raises,
  \<open>run_assistant\<close> raises and leaves \<open>assistant_is_typing\<close> true.
\<close>

theorem assistant_is_typing_stuck_counterexample:
  "run_assistant scripted asking ''asst_1'' (starting status_unreachable) =
     Some (Inl AttributeError,
           asking\<lparr>assistant_is_typing := True\<rparr>,
           \<lparr>world = status_unreachable,
            trace = [Call Runs_create, Sleep 1, Call Runs_retrieve],
            previous_question = None\<rparr>)"
  by (simp add: run_assistant_def poll_loop.simps remote_calls status_unreachable_def asking_def)

text \<open>
  C8. Take a run created with a status other than \<^verbatim>\<open>completed\<close> whose four
  successive status fetches return \<^verbatim>\<open>queued\<close>, \<^verbatim>\<open>in_progress\<close>,
  \<^verbatim>\<open>in_progress\<close>, \<^verbatim>\<open>completed\<close>. Then the loop fetches the status exactly four
  times, sleeping 1 before each fetch, and ends with the run of the fourth fetch. After
  that \<open>run_assistant\<close> lists the messages once and appends, in the order of the
  listing, an entry for each message of the listing whose \<^verbatim>\<open>run_id\<close> is the
  identifier of that run and whose role is \<^verbatim>\<open>assistant\<close>, and for no other message:
  for all of them when it returns, and for those before the first one whose text
  cannot be read when it raises; it appends nothing when the listing fails. (The status
  carried by the run as created is examined before the first fetch, without a fetch.)
\<close>

theorem run_assistant_four_polls:
  assumes "create_run api (thread_id state) assistant_id env = (Inr (Some created), env0)"
    and "status created \<noteq> ''completed''"
    and "runs_retrieve api (thread_id state) (ident created) (world env0) = (Returns r1, w1)"
    and "status r1 = ''queued''"
    and "runs_retrieve api (thread_id state) (ident r1) w1 = (Returns r2, w2)"
    and "status r2 = ''in_progress''"
    and "runs_retrieve api (thread_id state) (ident r2) w2 = (Returns r3, w3)"
    and "status r3 = ''in_progress''"
    and "runs_retrieve api (thread_id state) (ident r3) w3 = (Returns r4, w4)"
    and "status r4 = ''completed''"
    and "env4 = env0\<lparr>world := w4,
                      trace := trace env0 @ [Sleep 1, Call Runs_retrieve, Sleep 1, Call Runs_retrieve,
                                             Sleep 1, Call Runs_retrieve, Sleep 1, Call Runs_retrieve]\<rparr>"
  shows "poll_loop api (thread_id state) (Some created) env0 = Some (Inr r4, env4)
         \<and> (\<exists>res state'.
               run_assistant api state assistant_id env
                 = Some (res, state', snd (get_messages api (thread_id state) env4))
               \<and> (case fst (get_messages api (thread_id state) env4) of
                     Inl e \<Rightarrow> res = Inl e \<and> state' = state\<lparr>assistant_is_typing := True\<rparr>
                   | Inr None \<Rightarrow>
                       res = Inl TypeError \<and> state' = state\<lparr>assistant_is_typing := True\<rparr>
                   | Inr (Some msgs) \<Rightarrow>
                       (\<exists>k new.
                          k \<le> length (filter (\<lambda>message. run_id message = Some (ident r4)
                                                   \<and> message_role message = ''assistant'') msgs)
                        \<and> list_all2 entry_of
                            (take k (filter (\<lambda>message. run_id message = Some (ident r4)
                                                   \<and> message_role message = ''assistant'') msgs))
                            new
                        \<and> state' = state\<lparr>assistant_is_typing := (res \<noteq> Inr ()),
                                           messages := messages state @ new\<rparr>
                        \<and> (res = Inr ()
                              \<and> k = length (filter (\<lambda>message. run_id message = Some (ident r4)
                                                   \<and> message_role message = ''assistant'') msgs)
                            \<or> (\<exists>e. res = Inl e
                                  \<and> k < length (filter (\<lambda>message. run_id message = Some (ident r4)
                                                   \<and> message_role message = ''assistant'') msgs)
                                  \<and> text_value
                                       (filter (\<lambda>message. run_id message = Some (ident r4)
                                                   \<and> message_role message = ''assistant'') msgs ! k)
                                     = Inl e)))))"
proof -
  have poll: "poll_loop api (thread_id state) (Some created) env0 = Some (Inr r4, env4)"
    using assms(2-11)
    by (simp add: poll_loop_fetch [where r = created and r' = r1 and w' = w1]
                  poll_loop_fetch [where r = r1 and r' = r2 and w' = w2]
                  poll_loop_fetch [where r = r2 and r' = r3 and w' = w3]
                  poll_loop_fetch [where r = r3 and r' = r4 and w' = w4]
                  poll_loop_stop)
  obtain g env5 where g: "get_messages api (thread_id state) env4 = (g, env5)"
    by (cases "get_messages api (thread_id state) env4")
  obtain res state' env' where
    ra: "run_assistant api state assistant_id env = Some (res, state', env')"
    using assms(1) poll g
    by (cases "run_assistant api state assistant_id env")
       (auto simp: run_assistant_def Let_def split: prod.splits sum.splits option.splits)
  let ?H = "\<lambda>msgs. filter (\<lambda>message. run_id message = Some (ident r4)
                                      \<and> message_role message = ''assistant'') msgs"
  let ?st = "state\<lparr>assistant_is_typing := True\<rparr>"
  have "env' = env5
        \<and> (case g of
              Inl e \<Rightarrow> res = Inl e \<and> state' = state\<lparr>assistant_is_typing := True\<rparr>
            | Inr None \<Rightarrow> res = Inl TypeError \<and> state' = state\<lparr>assistant_is_typing := True\<rparr>
            | Inr (Some msgs) \<Rightarrow>
                (\<exists>k new. k \<le> length (?H msgs) \<and> list_all2 entry_of (take k (?H msgs)) new
                   \<and> state' = state\<lparr>assistant_is_typing := (res \<noteq> Inr ()),
                                      messages := messages state @ new\<rparr>
                   \<and> (res = Inr () \<and> k = length (?H msgs)
                       \<or> (\<exists>e. res = Inl e \<and> k < length (?H msgs)
                               \<and> text_value (?H msgs ! k) = Inl e))))"
  proof (cases g)
    case (Inl e)
    with ra assms(1) poll g show ?thesis
      by (simp add: run_assistant_def Let_def)
  next
    case (Inr listing)
    show ?thesis
    proof (cases listing)
      case None
      with ra assms(1) poll g Inr show ?thesis
        by (simp add: run_assistant_def Let_def)
    next
      case (Some msgs)
      obtain ar st2 where app: "append_assistant_messages (?H msgs) ?st = (ar, st2)"
        by (cases "append_assistant_messages (?H msgs) ?st")
      from append_assistant_messages_result [OF app] obtain k new where
        k: "k \<le> length (?H msgs)" "list_all2 entry_of (take k (?H msgs)) new"
           "st2 = ?st\<lparr>messages := messages ?st @ new\<rparr>"
           "ar = Inr () \<and> k = length (?H msgs)
            \<or> (\<exists>e. ar = Inl e \<and> k < length (?H msgs) \<and> text_value (?H msgs ! k) = Inl e)"
        by blast
      have "env' = env5 \<and> res = ar
            \<and> state' = state\<lparr>assistant_is_typing := (res \<noteq> Inr ()),
                               messages := messages state @ new\<rparr>"
        using ra assms(1) poll g Inr Some app k(3)
        by (cases ar) (auto simp: run_assistant_def Let_def assistant_messages_def)
      with k(1,2,4) have "env' = env5
          \<and> k \<le> length (?H msgs) \<and> list_all2 entry_of (take k (?H msgs)) new
          \<and> state' = state\<lparr>assistant_is_typing := (res \<noteq> Inr ()),
                             messages := messages state @ new\<rparr>
          \<and> (res = Inr () \<and> k = length (?H msgs)
              \<or> (\<exists>e. res = Inl e \<and> k < length (?H msgs) \<and> text_value (?H msgs ! k) = Inl e))"
        by simp
      then have "env' = env5
          \<and> (\<exists>k new. k \<le> length (?H msgs) \<and> list_all2 entry_of (take k (?H msgs)) new
          \<and> state' = state\<lparr>assistant_is_typing := (res \<noteq> Inr ()),
                             messages := messages state @ new\<rparr>
          \<and> (res = Inr () \<and> k = length (?H msgs)
              \<or> (\<exists>e. res = Inl e \<and> k < length (?H msgs) \<and> text_value (?H msgs ! k) = Inl e)))"
        by blast
      with Inr Some show ?thesis by simp
    qed
  qed
  with poll ra g show ?thesis
    by auto
qed

theorem run_assistant_four_polls_witness:
  "poll_loop scripted (Some ''T1'') (Some (Run ''run_4'' ''queued''))
     \<lparr>world = four_polls, trace = [Call Runs_create], previous_question = None\<rparr> =
     Some (Inr (Run ''run_4'' ''completed''),
           \<lparr>world = four_polls\<lparr>on_runs_retrieve := [Returns (Run ''run_4'' ''completed'')]\<rparr>,
            trace = [Call Runs_create, Sleep 1, Call Runs_retrieve, Sleep 1, Call Runs_retrieve,
                     Sleep 1, Call Runs_retrieve, Sleep 1, Call Runs_retrieve],
            previous_question = None\<rparr>)
   \<and> run_assistant scripted asking ''asst_1'' (starting four_polls) =
     Some (Inr (),
           asking\<lparr>messages := [\<lparr>role = ''user'', content = ''Hello''\<rparr>,
                                \<lparr>role = ''assistant'', content = ''Hi there''\<rparr>]\<rparr>,
           \<lparr>world = four_polls\<lparr>on_runs_retrieve := [Returns (Run ''run_4'' ''completed'')]\<rparr>,
            trace = [Call Runs_create, Sleep 1, Call Runs_retrieve, Sleep 1, Call Runs_retrieve,
                     Sleep 1, Call Runs_retrieve, Sleep 1, Call Runs_retrieve, Call Messages_list],
            previous_question = None\<rparr>)"
proof -
  let ?env0 = "\<lparr>world = four_polls, trace = [Call Runs_create], previous_question = None\<rparr>"
  let ?w1 = "four_polls\<lparr>on_runs_retrieve := [Returns (Run ''run_4'' ''in_progress''),
                Returns (Run ''run_4'' ''in_progress''), Returns (Run ''run_4'' ''completed'')]\<rparr>"
  let ?w2 = "four_polls\<lparr>on_runs_retrieve := [Returns (Run ''run_4'' ''in_progress''),
                Returns (Run ''run_4'' ''completed'')]\<rparr>"
  let ?w3 = "four_polls\<lparr>on_runs_retrieve := [Returns (Run ''run_4'' ''completed'')]\<rparr>"
  let ?env4 = "?env0\<lparr>world := ?w3,
                      trace := trace ?env0 @ [Sleep 1, Call Runs_retrieve, Sleep 1, Call Runs_retrieve,
                                             Sleep 1, Call Runs_retrieve, Sleep 1, Call Runs_retrieve]\<rparr>"
  have created: "create_run scripted (thread_id asking) ''asst_1'' (starting four_polls)
      = (Inr (Some (Run ''run_4'' ''queued'')), ?env0)"
    by (simp add: remote_calls four_polls_def)
  have f1: "runs_retrieve scripted (thread_id asking) (ident (Run ''run_4'' ''queued'')) (world ?env0)
      = (Returns (Run ''run_4'' ''queued''), ?w1)"
    by (simp add: scripted_def four_polls_def)
  have f2: "runs_retrieve scripted (thread_id asking) (ident (Run ''run_4'' ''queued'')) ?w1
      = (Returns (Run ''run_4'' ''in_progress''), ?w2)"
    by (simp add: scripted_def four_polls_def)
  have f3: "runs_retrieve scripted (thread_id asking) (ident (Run ''run_4'' ''in_progress'')) ?w2
      = (Returns (Run ''run_4'' ''in_progress''), ?w3)"
    by (simp add: scripted_def four_polls_def)
  have f4: "runs_retrieve scripted (thread_id asking) (ident (Run ''run_4'' ''in_progress'')) ?w3
      = (Returns (Run ''run_4'' ''completed''), ?w3)"
    by (simp add: scripted_def four_polls_def)
  from run_assistant_four_polls [OF created _ f1 _ f2 _ f3 _ f4 _ refl]
  have "poll_loop scripted (thread_id asking) (Some (Run ''run_4'' ''queued'')) ?env0 =
           Some (Inr (Run ''run_4'' ''completed''), ?env4)"
    by simp
  then have poll: "poll_loop scripted (Some ''T1'') (Some (Run ''run_4'' ''queued'')) ?env0 =
     Some (Inr (Run ''run_4'' ''completed''),
           \<lparr>world = ?w3,
            trace = [Call Runs_create, Sleep 1, Call Runs_retrieve, Sleep 1, Call Runs_retrieve,
                     Sleep 1, Call Runs_retrieve, Sleep 1, Call Runs_retrieve],
            previous_question = None\<rparr>)"
    by (simp add: asking_def)
  have "run_assistant scripted asking ''asst_1'' (starting four_polls) =
     Some (Inr (),
           asking\<lparr>messages := [\<lparr>role = ''user'', content = ''Hello''\<rparr>,
                                \<lparr>role = ''assistant'', content = ''Hi there''\<rparr>]\<rparr>,
           \<lparr>world = ?w3,
            trace = [Call Runs_create, Sleep 1, Call Runs_retrieve, Sleep 1, Call Runs_retrieve,
                     Sleep 1, Call Runs_retrieve, Sleep 1, Call Runs_retrieve, Call Messages_list],
            previous_question = None\<rparr>)"
    using created poll
    by (simp add: run_assistant_def get_messages_def safe_api_call_unfold invoke_eq scripted_def
          four_polls_def asking_def assistant_messages_def text_value_def SessionState_init_def)
  with poll show ?thesis by simp
qed

section \<open>The conversation lifecycle: properties\<close>

lemma send_initial_messages_frame:
  assumes "send_initial_messages api p state aid env = Some (res, state', env')"
  shows "\<exists>new b. state' = state\<lparr>messages := messages state @ new, assistant_is_typing := b\<rparr>
           \<and> list_all (\<lambda>entry. role entry = ''assistant'') new
           \<and> (res = Inr () \<longrightarrow> b = False)"
proof -
  let ?first = "initial_prompt p (job_type state) (job_description_text state) (resume_text state)"
  have found: "?thesis"
    if "state' = state\<lparr>messages := messages state @ new, assistant_is_typing := b\<rparr>"
      and "list_all (\<lambda>entry. role entry = ''assistant'') new"
      and "res = Inr () \<longrightarrow> b = False"
    for new b
    using that by blast
  obtain c1 env1 where c1: "create_message api (thread_id state) ''user'' ?first env = (c1, env1)"
    by (cases "create_message api (thread_id state) ''user'' ?first env")
  show ?thesis
  proof (cases c1)
    case (Inl e)
    with assms c1 have "res = Inl e" "state' = state"
      by (simp_all add: send_initial_messages_def)
    then show ?thesis
      by (intro found [where new = "[]" and b = "assistant_is_typing state"]) simp_all
  next
    case (Inr m1)
    with assms c1 obtain r1 state1 env2 where
      run1: "run_assistant api state aid env1 = Some (r1, state1, env2)"
      by (cases "run_assistant api state aid env1") (auto simp: send_initial_messages_def)
    from run_assistant_frame [OF run1] obtain new1 b1 where
      n1: "state1 = state\<lparr>messages := messages state @ new1, assistant_is_typing := b1\<rparr>"
          "list_all (\<lambda>entry. role entry = ''assistant'') new1"
      by blast
    show ?thesis
    proof (cases r1)
      case (Inl e)
      with assms c1 Inr run1 have "res = Inl e" "state' = state1"
        by (simp_all add: send_initial_messages_def)
      with n1 show ?thesis
        by (intro found [where new = new1 and b = b1]) simp_all
    next
      case u1: (Inr u1)
      obtain c2 env3 where
        c2: "create_message api (thread_id state1) ''user'' (second_prompt p) env2 = (c2, env3)"
        by (cases "create_message api (thread_id state1) ''user'' (second_prompt p) env2")
      show ?thesis
      proof (cases c2)
        case (Inl e)
        with assms c1 Inr run1 u1 c2 have "res = Inl e" "state' = state1"
          by (simp_all add: send_initial_messages_def)
        with n1 show ?thesis
          by (intro found [where new = new1 and b = b1]) simp_all
      next
        case m2: (Inr m2)
        with assms c1 Inr run1 u1 c2 have
          run2: "run_assistant api state1 aid env3 = Some (res, state', env')"
          by (simp add: send_initial_messages_def)
        from run_assistant_frame [OF run2] obtain new2 b2 where
          n2: "state' = state1\<lparr>messages := messages state1 @ new2, assistant_is_typing := b2\<rparr>"
              "list_all (\<lambda>entry. role entry = ''assistant'') new2"
              "res = Inr () \<longrightarrow> b2 = False"
          by blast
        from n2(1) have "state' = state\<lparr>messages := messages state @ new1 @ new2,
                                         assistant_is_typing := b2\<rparr>"
          by (simp add: n1(1))
        with n1(2) n2(2,3) show ?thesis
          by (intro found [where new = "new1 @ new2" and b = b2]) simp_all
      qed
    qed
  qed
qed

lemma send_initial_messages_question_count:
  assumes "send_initial_messages api p state aid env = Some (res, state', env')"
  shows "question_count state' = question_count state"
proof -
  from send_initial_messages_frame [OF assms] obtain new b where
    "state' = state\<lparr>messages := messages state @ new, assistant_is_typing := b\<rparr>"
    by blast
  then show ?thesis by simp
qed

lemma send_initial_messages_assistant_only:
  assumes "send_initial_messages api p state aid env = Some (res, state', env')"
  shows "\<exists>new. messages state' = messages state @ new
               \<and> list_all (\<lambda>entry. role entry = ''assistant'') new"
proof -
  from send_initial_messages_frame [OF assms] obtain new b where
    "state' = state\<lparr>messages := messages state @ new, assistant_is_typing := b\<rparr>"
    "list_all (\<lambda>entry. role entry = ''assistant'') new"
    by blast
  then have "messages state' = messages state @ new
               \<and> list_all (\<lambda>entry. role entry = ''assistant'') new"
    by simp
  then show ?thesis ..
qed

text \<open>
  C2, as the code has it. The source has no \<^verbatim>\<open>SessionInitError\<close>, and
  \<open>start_chat\<close> is set to true before the thread is created. If the creation of the
  thread fails, that is if \<open>create_thread\<close> raises, the start raises the same error;
  the session is left with \<open>start_chat\<close> true, an empty transcript, the three flags
  \<open>buttons_shown\<close>, \<open>processing\<close> and \<open>assistant_is_typing\<close> false and every
  other field, \<open>thread_id\<close> included, as before; the only remote function invoked is
  the creation of a thread, so no message is posted and no run is created. A later
  start is not affected by the failed one: started again from the session it left, the
  function does what it does started from the session before it.
\<close>

theorem start_chat_thread_creation_fails:
  assumes "create_thread api (env\<lparr>previous_question := Some ''Select a predefined question''\<rparr>)
             = (Inl e, env2)"
  shows "start_chat_fn api p state assistant_id env =
           Some (Inl e,
                 state\<lparr> start_chat := True, buttons_shown := False, messages := [],
                        processing := False, assistant_is_typing := False \<rparr>,
                 env2)
       \<and> (\<exists>t. trace env2 = trace env @ t
              \<and> list_all (\<lambda>ev. ev = Call Threads_create \<or> (\<exists>d. ev = Sleep d)) t)
       \<and> (\<forall>env3. start_chat_fn api p
                     (state\<lparr> start_chat := True, buttons_shown := False, messages := [],
                             processing := False, assistant_is_typing := False \<rparr>)
                     assistant_id env3
                   = start_chat_fn api p state assistant_id env3)"
proof (intro conjI allI)
  from assms show "start_chat_fn api p state assistant_id env =
           Some (Inl e,
                 state\<lparr> start_chat := True, buttons_shown := False, messages := [],
                        processing := False, assistant_is_typing := False \<rparr>,
                 env2)"
    by (simp add: start_chat_fn_def)
next
  from safe_api_call_effects [OF assms [unfolded create_thread_def]]
  show "\<exists>t. trace env2 = trace env @ t
              \<and> list_all (\<lambda>ev. ev = Call Threads_create \<or> (\<exists>d. ev = Sleep d)) t"
    by simp
next
  fix env3
  show "start_chat_fn api p
          (state\<lparr> start_chat := True, buttons_shown := False, messages := [],
                  processing := False, assistant_is_typing := False \<rparr>)
          assistant_id env3
        = start_chat_fn api p state assistant_id env3"
    by (simp add: start_chat_fn_def)
qed

lemma thread_service_busy_fails:
  "create_thread scripted
     ((starting thread_service_busy)\<lparr>previous_question := Some ''Select a predefined question''\<rparr>)
   = (Inl AttributeError,
      \<lparr>world = thread_service_busy\<lparr>on_threads_create :=
                 [Raises_OpenAIError ''overloaded'', Returns (Thread ''T9'')]\<rparr>,
       trace = [Call Threads_create],
       previous_question = Some ''Select a predefined question''\<rparr>)"
  by (simp add: remote_calls thread_service_busy_def)

text \<open>A thread service that raises at the first call.\<close>

theorem start_chat_thread_creation_fails_witness:
  "start_chat_fn scripted canned SessionState_init ''asst_1'' (starting thread_service_busy) =
     Some (Inl AttributeError,
           SessionState_init\<lparr>start_chat := True\<rparr>,
           \<lparr>world = thread_service_busy\<lparr>on_threads_create :=
                      [Raises_OpenAIError ''overloaded'', Returns (Thread ''T9'')]\<rparr>,
            trace = [Call Threads_create],
            previous_question = Some ''Select a predefined question''\<rparr>)"
  using start_chat_thread_creation_fails
          [OF thread_service_busy_fails, of canned SessionState_init "''asst_1''"]
  by (simp add: SessionState_init_def)

text \<open>
  The session does not remain inactive: with a thread service that is down, the start
  of a new session raises and leaves \<open>start_chat\<close> true.
\<close>

theorem start_chat_marks_active_counterexample:
  "start_chat_fn scripted canned SessionState_init ''asst_1'' (starting thread_service_down) =
     Some (Inl AttributeError,
           SessionState_init\<lparr>start_chat := True\<rparr>,
           \<lparr>world = thread_service_down,
            trace = [Call Threads_create],
            previous_question = Some ''Select a predefined question''\<rparr>)"
  by (simp add: start_chat_fn_def remote_calls thread_service_down_def SessionState_init_def)

text \<open>
  C6, as the code has it. \<open>start_chat_fn\<close> empties the transcript and clears
  \<open>buttons_shown\<close>, \<open>processing\<close> and \<open>assistant_is_typing\<close> before seeding, and
  sets \<open>start_chat\<close>; it never assigns \<open>question_count\<close>, and the seed submissions
  do not count. In full: what the start does and leaves does not depend on the
  transcript and the four flags it was given; once the thread is created, the start
  is the seeding of the session with an empty transcript, \<open>start_chat\<close> true, the
  other three flags false and the identifier of the new thread; and however the start
  ends, \<open>question_count\<close> is what it was before (0 exactly when it was 0 before) and
  the session differs from the one before in at most \<open>start_chat\<close>, which is true,
  \<open>buttons_shown\<close> and \<open>processing\<close>, which are false, the transcript, which holds
  assistant entries only, \<open>assistant_is_typing\<close>, which is false after a successful
  start, and \<open>thread_id\<close>, which is set after a successful start.
\<close>

theorem start_chat_keeps_question_count:
  "start_chat_fn api p
     (state\<lparr> messages := ms, buttons_shown := b1, processing := b2,
             assistant_is_typing := b3, start_chat := b4 \<rparr>) assistant_id env
     = start_chat_fn api p state assistant_id env
   \<and> (\<forall>created env2.
        create_thread api (env\<lparr>previous_question := Some ''Select a predefined question''\<rparr>)
          = (Inr (Some created), env2)
        \<longrightarrow> start_chat_fn api p state assistant_id env =
              send_initial_messages api p
                (state\<lparr> start_chat := True, buttons_shown := False, messages := [],
                        processing := False, assistant_is_typing := False,
                        thread_id := Some (thread_ident created) \<rparr>)
                assistant_id env2)
   \<and> (\<forall>res state' env'.
        start_chat_fn api p state assistant_id env = Some (res, state', env')
        \<longrightarrow> question_count state' = question_count state
            \<and> (\<exists>new b t.
                  state' = state\<lparr> start_chat := True, buttons_shown := False,
                                  processing := False, messages := new,
                                  assistant_is_typing := b, thread_id := t \<rparr>
                  \<and> list_all (\<lambda>entry. role entry = ''assistant'') new
                  \<and> (res = Inr () \<longrightarrow> b = False \<and> t \<noteq> None)))"
proof (intro conjI allI impI)
  show "start_chat_fn api p
     (state\<lparr> messages := ms, buttons_shown := b1, processing := b2,
             assistant_is_typing := b3, start_chat := b4 \<rparr>) assistant_id env
     = start_chat_fn api p state assistant_id env"
    by (simp add: start_chat_fn_def)
next
  fix created env2
  assume "create_thread api (env\<lparr>previous_question := Some ''Select a predefined question''\<rparr>)
          = (Inr (Some created), env2)"
  then show "start_chat_fn api p state assistant_id env =
              send_initial_messages api p
                (state\<lparr> start_chat := True, buttons_shown := False, messages := [],
                        processing := False, assistant_is_typing := False,
                        thread_id := Some (thread_ident created) \<rparr>)
                assistant_id env2"
    by (simp add: start_chat_fn_def)
next
  fix res state' env'
  assume st: "start_chat_fn api p state assistant_id env = Some (res, state', env')"
  let ?state1 = "state\<lparr> start_chat := True, buttons_shown := False, messages := [],
                          processing := False, assistant_is_typing := False \<rparr>"
  let ?env1 = "env\<lparr>previous_question := Some ''Select a predefined question''\<rparr>"
  have found: "question_count state' = question_count state
            \<and> (\<exists>new b t.
                  state' = state\<lparr> start_chat := True, buttons_shown := False,
                                  processing := False, messages := new,
                                  assistant_is_typing := b, thread_id := t \<rparr>
                  \<and> list_all (\<lambda>entry. role entry = ''assistant'') new
                  \<and> (res = Inr () \<longrightarrow> b = False \<and> t \<noteq> None))"
    if "state' = state\<lparr> start_chat := True, buttons_shown := False,
                                  processing := False, messages := new,
                                  assistant_is_typing := b, thread_id := t \<rparr>"
      and "list_all (\<lambda>entry. role entry = ''assistant'') new"
      and "res = Inr () \<longrightarrow> b = False \<and> t \<noteq> None"
    for new b t
  proof
    from that(1) show "question_count state' = question_count state" by simp
    from that show "\<exists>new b t.
                  state' = state\<lparr> start_chat := True, buttons_shown := False,
                                  processing := False, messages := new,
                                  assistant_is_typing := b, thread_id := t \<rparr>
                  \<and> list_all (\<lambda>entry. role entry = ''assistant'') new
                  \<and> (res = Inr () \<longrightarrow> b = False \<and> t \<noteq> None)"
      by blast
  qed
  obtain c env2 where c: "create_thread api ?env1 = (c, env2)"
    by (cases "create_thread api ?env1")
  have both: "question_count state' = question_count state
            \<and> (\<exists>new b t.
                  state' = state\<lparr> start_chat := True, buttons_shown := False,
                                  processing := False, messages := new,
                                  assistant_is_typing := b, thread_id := t \<rparr>
                  \<and> list_all (\<lambda>entry. role entry = ''assistant'') new
                  \<and> (res = Inr () \<longrightarrow> b = False \<and> t \<noteq> None))"
  proof (cases c)
    case (Inl e)
    with st c have "res = Inl e" "state' = ?state1"
      by (simp_all add: start_chat_fn_def)
    then show ?thesis
      by (intro found [where new = "[]" and b = False and t = "thread_id state"]) simp_all
  next
    case (Inr created)
    show ?thesis
    proof (cases created)
      case None
      with st c Inr have "res = Inl AttributeError" "state' = ?state1"
        by (simp_all add: start_chat_fn_def)
      then show ?thesis
        by (intro found [where new = "[]" and b = False and t = "thread_id state"]) simp_all
    next
      case (Some thread)
      let ?state2 = "?state1\<lparr>thread_id := Some (thread_ident thread)\<rparr>"
      from st c Inr Some have
        "send_initial_messages api p ?state2 assistant_id env2 = Some (res, state', env')"
        by (simp add: start_chat_fn_def)
      from send_initial_messages_frame [OF this] obtain new b where
        "state' = ?state2\<lparr>messages := messages ?state2 @ new, assistant_is_typing := b\<rparr>"
        "list_all (\<lambda>entry. role entry = ''assistant'') new"
        "res = Inr () \<longrightarrow> b = False"
        by blast
      then show ?thesis
        by (intro found [where new = new and b = b and t = "Some (thread_ident thread)"])
           simp_all
    qed
  qed
  from both show "question_count state' = question_count state" ..
  from both show "\<exists>new b t.
                  state' = state\<lparr> start_chat := True, buttons_shown := False,
                                  processing := False, messages := new,
                                  assistant_is_typing := b, thread_id := t \<rparr>
                  \<and> list_all (\<lambda>entry. role entry = ''assistant'') new
                  \<and> (res = Inr () \<longrightarrow> b = False \<and> t \<noteq> None)" ..
qed

lemma seeding_restart:
  "start_chat_fn scripted canned (asking\<lparr>question_count := 0, assistant_is_typing := True\<rparr>)
     ''asst_1'' (starting seeding) =
     Some (Inr (),
           SessionState_init\<lparr> start_chat := True, thread_id := Some ''T1'',
             messages := [\<lparr>role = ''assistant'', content = ''Analysis''\<rparr>,
                          \<lparr>role = ''assistant'', content = ''Drafts''\<rparr>] \<rparr>,
           \<lparr>world = seeding\<lparr> on_runs_create := [Returns (Run ''run_2'' ''queued'')],
                     on_runs_retrieve := [Returns (Run ''run_2'' ''completed'')],
                     on_messages_list :=
                       [Returns [\<lparr>run_id = Some ''run_2'', message_role = ''assistant'',
                                   message_content = [TextBlock ''Drafts'']\<rparr>,
                                 \<lparr>run_id = None, message_role = ''user'',
                                   message_content = [TextBlock ''Seed 2'']\<rparr>,
                                 \<lparr>run_id = Some ''run_1'', message_role = ''assistant'',
                                   message_content = [TextBlock ''Analysis'']\<rparr>,
                                 \<lparr>run_id = None, message_role = ''user'',
                                   message_content = [TextBlock ''Seed 1'']\<rparr>]] \<rparr>,
            trace = [Call Threads_create,
                     Call Messages_create, Call Runs_create, Sleep 1, Call Runs_retrieve,
                     Call Messages_list,
                     Call Messages_create, Call Runs_create, Sleep 1, Call Runs_retrieve,
                     Sleep 1, Call Runs_retrieve, Call Messages_list],
            previous_question = Some ''Select a predefined question''\<rparr>)"
  by (simp add: start_chat_fn_def send_initial_messages_def run_assistant_def poll_loop.simps
        remote_calls seeding_def assistant_messages_def text_value_def canned_def asking_def
        SessionState_init_def)

text \<open>
  A start from a session that holds a user entry, has the typing flag set and has
  counted no question: the transcript holds the two replies to the seeds only, the
  flag is cleared and the count is 0.
\<close>

theorem start_chat_keeps_question_count_witness:
  "start_chat_fn scripted canned (asking\<lparr>question_count := 0, assistant_is_typing := True\<rparr>)
     ''asst_1'' (starting seeding) =
     Some (Inr (),
           SessionState_init\<lparr> start_chat := True, thread_id := Some ''T1'',
             messages := [\<lparr>role = ''assistant'', content = ''Analysis''\<rparr>,
                          \<lparr>role = ''assistant'', content = ''Drafts''\<rparr>] \<rparr>,
           \<lparr>world = seeding\<lparr> on_runs_create := [Returns (Run ''run_2'' ''queued'')],
                     on_runs_retrieve := [Returns (Run ''run_2'' ''completed'')],
                     on_messages_list :=
                       [Returns [\<lparr>run_id = Some ''run_2'', message_role = ''assistant'',
                                   message_content = [TextBlock ''Drafts'']\<rparr>,
                                 \<lparr>run_id = None, message_role = ''user'',
                                   message_content = [TextBlock ''Seed 2'']\<rparr>,
                                 \<lparr>run_id = Some ''run_1'', message_role = ''assistant'',
                                   message_content = [TextBlock ''Analysis'']\<rparr>,
                                 \<lparr>run_id = None, message_role = ''user'',
                                   message_content = [TextBlock ''Seed 1'']\<rparr>]] \<rparr>,
            trace = [Call Threads_create,
                     Call Messages_create, Call Runs_create, Sleep 1, Call Runs_retrieve,
                     Call Messages_list,
                     Call Messages_create, Call Runs_create, Sleep 1, Call Runs_retrieve,
                     Sleep 1, Call Runs_retrieve, Call Messages_list],
            previous_question = Some ''Select a predefined question''\<rparr>)
   \<and> question_count (SessionState_init\<lparr> start_chat := True, thread_id := Some ''T1'',
             messages := [\<lparr>role = ''assistant'', content = ''Analysis''\<rparr>,
                          \<lparr>role = ''assistant'', content = ''Drafts''\<rparr>] \<rparr>)
       = question_count (asking\<lparr>question_count := 0, assistant_is_typing := True\<rparr>)"
proof -
  from start_chat_keeps_question_count
         [where api = scripted and p = canned and assistant_id = "''asst_1''"
            and state = "asking\<lparr>question_count := 0, assistant_is_typing := True\<rparr>"
            and env = "starting seeding"]
       seeding_restart
  have "question_count (SessionState_init\<lparr> start_chat := True, thread_id := Some ''T1'',
             messages := [\<lparr>role = ''assistant'', content = ''Analysis''\<rparr>,
                          \<lparr>role = ''assistant'', content = ''Drafts''\<rparr>] \<rparr>)
       = question_count (asking\<lparr>question_count := 0, assistant_is_typing := True\<rparr>)"
    by blast
  with seeding_restart show ?thesis by simp
qed

text \<open>
  A successful start of a session that had counted 5 questions leaves the count at 5.
\<close>

theorem start_chat_question_count_counterexample:
  "map_option fst
     (start_chat_fn scripted canned (asking\<lparr>question_count := 5\<rparr>) ''asst_1'' (starting seeding))
     = Some (Inr ())
   \<and> map_option (question_count \<circ> fst \<circ> snd)
     (start_chat_fn scripted canned (asking\<lparr>question_count := 5\<rparr>) ''asst_1'' (starting seeding))
     = Some 5"
  by (simp add: start_chat_fn_def send_initial_messages_def run_assistant_def poll_loop.simps
        remote_calls seeding_def assistant_messages_def text_value_def canned_def asking_def
        SessionState_init_def)

section \<open>The chat interface: properties\<close>

lemma chat_interface_typed:
  assumes "user_input \<noteq> None \<and> user_input \<noteq> Some []"
    and "question_count state < MAX_QUESTIONS_PER_SESSION"
    and "chat_interface api p user_input selected_question state aid env = Some (res, state', env')"
  shows "\<exists>state2. state2 = state\<lparr>question_count := question_count state + 1,
                                   messages := messages state @ [\<lparr>role = ''user'', content = the user_input\<rparr>]\<rparr>
           \<and> ((\<exists>e. res = Inl e \<and> state' = state2
                    \<and> fst (create_message api (thread_id state) ''user'' (the user_input) env) = Inl e)
              \<or> (\<exists>m env1 r. create_message api (thread_id state) ''user'' (the user_input) env = (Inr m, env1)
                    \<and> run_assistant api state2 aid env1 = Some (r, state', env')
                    \<and> res = map_sum id (\<lambda>u. Rerun) r))"
proof -
  let ?state2 = "state\<lparr>question_count := question_count state + 1,
                         messages := messages state @ [\<lparr>role = ''user'', content = the user_input\<rparr>]\<rparr>"
  obtain c env1 where c: "create_message api (thread_id state) ''user'' (the user_input) env = (c, env1)"
    by (cases "create_message api (thread_id state) ''user'' (the user_input) env")
  show ?thesis
  proof (cases c)
    case (Inl e)
    with assms c show ?thesis by (auto simp: chat_interface_def)
  next
    case (Inr m)
    with assms c obtain r st3 env2 where
      "run_assistant api ?state2 aid env1 = Some (r, st3, env2)"
      by (cases "run_assistant api ?state2 aid env1") (auto simp: chat_interface_def)
    with assms c Inr show ?thesis
      by (cases r) (auto simp: chat_interface_def)
  qed
qed

lemma chat_interface_selected:
  assumes "\<not> (user_input \<noteq> None \<and> user_input \<noteq> Some [])"
    and "question_count state < MAX_QUESTIONS_PER_SESSION"
    and "chat_interface api p user_input selected_question state aid env = Some (res, state', env')"
  shows "(res = Inr Returned \<and> state' = state \<and> world env' = world env \<and> trace env' = trace env)
       \<or> (res = Inl KeyError \<and> state' = state\<lparr>question_count := question_count state + 1\<rparr>)
       \<or> (\<exists>detailed env0 state2.
             map_of (predefined_questions p) selected_question = Some detailed
           \<and> world env0 = world env \<and> trace env0 = trace env
           \<and> state2 = state\<lparr>question_count := question_count state + 1,
                              messages := messages state @ [\<lparr>role = ''user'', content = selected_question\<rparr>]\<rparr>
           \<and> ((\<exists>e. res = Inl e \<and> state' = state2
                    \<and> fst (create_message api (thread_id state) ''user'' detailed env0) = Inl e)
              \<or> (\<exists>m env1 r env2. create_message api (thread_id state) ''user'' detailed env0 = (Inr m, env1)
                    \<and> run_assistant api state2 aid env1 = Some (r, state', env2)
                    \<and> res = map_sum id (\<lambda>u. Rerun) r)))"
proof (cases "start_chat state \<and> \<not> assistant_is_typing state
              \<and> selected_question \<noteq> ''Select a predefined question''
              \<and> Some selected_question \<noteq> previous_question
                   (if previous_question env = None
                     then env\<lparr>previous_question := Some ''Select a predefined question''\<rparr>
                     else env)")
  case False
  with assms show ?thesis
    by (auto simp: chat_interface_def Let_def split: if_splits)
next
  case True
  let ?env0 = "if previous_question env = None
                     then env\<lparr>previous_question := Some ''Select a predefined question''\<rparr>
                     else env"
  let ?state1 = "state\<lparr>question_count := question_count state + 1\<rparr>"
  let ?state2 = "state\<lparr>question_count := question_count state + 1,
                         messages := messages state @ [\<lparr>role = ''user'', content = selected_question\<rparr>]\<rparr>"
  have env0: "world ?env0 = world env" "trace ?env0 = trace env"
    by simp_all
  note defs = chat_interface_def Let_def
  show ?thesis
  proof (cases "map_of (predefined_questions p) selected_question")
    case None
    with assms True show ?thesis by (auto simp: defs)
  next
    case (Some detailed)
    obtain c env1 where c: "create_message api (thread_id state) ''user'' detailed ?env0 = (c, env1)"
      by (cases "create_message api (thread_id state) ''user'' detailed ?env0")
    show ?thesis
    proof (cases c)
      case (Inl e)
      with assms True Some c have "res = Inl e \<and> state' = ?state2"
        by (auto simp: defs split: if_splits)
      with Inl c Some env0 show ?thesis by force
    next
      case (Inr m)
      with assms True Some c obtain r st3 env2 where
        ra: "run_assistant api ?state2 aid env1 = Some (r, st3, env2)"
        by (cases "run_assistant api ?state2 aid env1") (auto simp: defs split: if_splits)
      with assms True Some c Inr have "st3 = state' \<and> res = map_sum id (\<lambda>u. Rerun) r"
        by (cases r) (auto simp: defs split: if_splits)
      with ra c Inr Some env0 show ?thesis by blast
    qed
  qed
qed

lemma chat_interface_at_limit:
  assumes "\<not> question_count state < MAX_QUESTIONS_PER_SESSION"
    and "chat_interface api p user_input selected_question state aid env = Some (res, state', env')"
  shows "(state' = state \<or> state' = reset_chat state)
         \<and> trace env' = trace env \<and> world env' = world env
         \<and> (\<exists>c. res = Inr c)"
  using assms by (auto simp: chat_interface_def Let_def split: if_splits)

lemma chat_interface_question_count:
  assumes "chat_interface api p user_input selected_question state aid env = Some (res, state', env')"
    and "question_count state < MAX_QUESTIONS_PER_SESSION"
  shows "question_count state' = question_count state
         \<or> question_count state' = question_count state + 1"
proof (cases "user_input \<noteq> None \<and> user_input \<noteq> Some []")
  case True
  from chat_interface_typed [OF True assms(2,1)] show ?thesis
    by (auto dest!: run_assistant_question_count)
next
  case False
  from chat_interface_selected [OF False assms(2,1)] show ?thesis
    by (auto dest!: run_assistant_question_count)
qed

lemma chat_interface_selected_success:
  assumes "\<not> (user_input \<noteq> None \<and> user_input \<noteq> Some [])"
    and "question_count state < MAX_QUESTIONS_PER_SESSION"
    and "chat_interface api p user_input selected_question state aid env
           = Some (Inr Rerun, state', env')"
  shows "\<exists>detailed m env1 u env2.
           map_of (predefined_questions p) selected_question = Some detailed
         \<and> create_message api (thread_id state) ''user'' detailed
             (if previous_question env = None
              then env\<lparr>previous_question := Some ''Select a predefined question''\<rparr>
              else env) = (Inr m, env1)
         \<and> run_assistant api
             (state\<lparr>question_count := question_count state + 1,
                    messages := messages state @ [\<lparr>role = ''user'', content = selected_question\<rparr>]\<rparr>)
             aid env1 = Some (Inr u, state', env2)
         \<and> env' = env2\<lparr>previous_question := Some selected_question\<rparr>"
proof (cases "start_chat state \<and> \<not> assistant_is_typing state
              \<and> selected_question \<noteq> ''Select a predefined question''
              \<and> Some selected_question \<noteq> previous_question
                   (if previous_question env = None
                     then env\<lparr>previous_question := Some ''Select a predefined question''\<rparr>
                     else env)")
  case False
  with assms show ?thesis
    by (auto simp: chat_interface_def Let_def split: if_splits)
next
  case True
  let ?env0 = "if previous_question env = None
                     then env\<lparr>previous_question := Some ''Select a predefined question''\<rparr>
                     else env"
  let ?state2 = "state\<lparr>question_count := question_count state + 1,
                         messages := messages state @ [\<lparr>role = ''user'', content = selected_question\<rparr>]\<rparr>"
  note defs = chat_interface_def Let_def
  show ?thesis
  proof (cases "map_of (predefined_questions p) selected_question")
    case None
    with assms True show ?thesis by (auto simp: defs)
  next
    case (Some detailed)
    obtain c env1 where c: "create_message api (thread_id state) ''user'' detailed ?env0 = (c, env1)"
      by (cases "create_message api (thread_id state) ''user'' detailed ?env0")
    show ?thesis
    proof (cases c)
      case (Inl e)
      with assms True Some c show ?thesis
        by (auto simp: defs split: if_splits)
    next
      case (Inr m)
      with assms True Some c obtain r st3 env2 where
        ra: "run_assistant api ?state2 aid env1 = Some (r, st3, env2)"
        by (cases "run_assistant api ?state2 aid env1") (auto simp: defs split: if_splits)
      with assms True Some c Inr have
        "st3 = state' \<and> (\<exists>u. r = Inr u) \<and> env' = env2\<lparr>previous_question := Some selected_question\<rparr>"
        by (cases r) (auto simp: defs split: if_splits)
      with ra c Inr Some show ?thesis by blast
    qed
  qed
qed

lemma chat_interface_appends:
  assumes "chat_interface api p user_input selected_question state assistant_id env
             = Some (Inr Rerun, state', env')"
    and "question_count state < MAX_QUESTIONS_PER_SESSION"
  shows "\<exists>text prompt env0 m envm run0 env1 r env2 msgs env3 new.
           (if user_input \<noteq> None \<and> user_input \<noteq> Some []
            then user_input = Some text \<and> prompt = text \<and> env0 = env \<and> env' = env3
            else text = selected_question
               \<and> map_of (predefined_questions p) selected_question = Some prompt
               \<and> env0 = (if previous_question env = None
                         then env\<lparr>previous_question := Some ''Select a predefined question''\<rparr>
                         else env)
               \<and> env' = env3\<lparr>previous_question := Some selected_question\<rparr>)
         \<and> create_message api (thread_id state) ''user'' prompt env0 = (Inr m, envm)
         \<and> create_run api (thread_id state) assistant_id envm = (Inr run0, env1)
         \<and> poll_loop api (thread_id state) run0 env1 = Some (Inr r, env2)
         \<and> status r = ''completed''
         \<and> get_messages api (thread_id state) env2 = (Inr (Some msgs), env3)
         \<and> list_all2 entry_of
              (filter (\<lambda>message. run_id message = Some (ident r)
                                 \<and> message_role message = ''assistant'') msgs) new
         \<and> state' = state\<lparr>question_count := question_count state + 1,
                            messages := messages state @ [\<lparr>role = ''user'', content = text\<rparr>] @ new,
                            assistant_is_typing := False\<rparr>"
proof (cases "user_input \<noteq> None \<and> user_input \<noteq> Some []")
  case True
  let ?text = "the user_input"
  let ?state2 = "state\<lparr>question_count := question_count state + 1,
      messages := messages state @ [\<lparr>role = ''user'', content = ?text\<rparr>]\<rparr>"
  from chat_interface_typed [OF True assms(2,1)] obtain m envm r where
    cm: "create_message api (thread_id state) ''user'' ?text env = (Inr m, envm)"
    and "run_assistant api ?state2 assistant_id envm = Some (r, state', env')"
    and "Inr Rerun = map_sum id (\<lambda>u. Rerun) r"
    by auto
  then obtain u where "run_assistant api ?state2 assistant_id envm = Some (Inr u, state', env')"
    by (cases r) auto
  from run_assistant_success [OF this] obtain run0 env1 r env2 msgs new where
    "create_run api (thread_id state) assistant_id envm = (Inr run0, env1)"
    "poll_loop api (thread_id state) run0 env1 = Some (Inr r, env2)"
    "status r = ''completed''"
    "get_messages api (thread_id state) env2 = (Inr (Some msgs), env')"
    "list_all2 entry_of (assistant_messages r msgs) new"
    "state' = ?state2\<lparr>assistant_is_typing := False, messages := messages ?state2 @ new\<rparr>"
    by auto
  with True cm have
    "(if user_input \<noteq> None \<and> user_input \<noteq> Some []
            then user_input = Some ?text \<and> ?text = ?text \<and> env = env \<and> env' = env'
            else ?text = selected_question
               \<and> map_of (predefined_questions p) selected_question = Some ?text
               \<and> env = (if previous_question env = None
                         then env\<lparr>previous_question := Some ''Select a predefined question''\<rparr>
                         else env)
               \<and> env' = env'\<lparr>previous_question := Some selected_question\<rparr>)
         \<and> create_message api (thread_id state) ''user'' ?text env = (Inr m, envm)
         \<and> create_run api (thread_id state) assistant_id envm = (Inr run0, env1)
         \<and> poll_loop api (thread_id state) run0 env1 = Some (Inr r, env2)
         \<and> status r = ''completed''
         \<and> get_messages api (thread_id state) env2 = (Inr (Some msgs), env')
         \<and> list_all2 entry_of
              (filter (\<lambda>message. run_id message = Some (ident r)
                                 \<and> message_role message = ''assistant'') msgs) new
         \<and> state' = state\<lparr>question_count := question_count state + 1,
                            messages := messages state @ [\<lparr>role = ''user'', content = ?text\<rparr>] @ new,
                            assistant_is_typing := False\<rparr>"
    by (auto simp: assistant_messages_def)
  then show ?thesis by (intro exI)
next
  case False
  let ?env0 = "if previous_question env = None
                     then env\<lparr>previous_question := Some ''Select a predefined question''\<rparr>
                     else env"
  let ?state2 = "state\<lparr>question_count := question_count state + 1,
      messages := messages state @ [\<lparr>role = ''user'', content = selected_question\<rparr>]\<rparr>"
  from chat_interface_selected_success [OF False assms(2,1)] obtain detailed m envm u enve where
    d: "map_of (predefined_questions p) selected_question = Some detailed"
    and cm: "create_message api (thread_id state) ''user'' detailed ?env0 = (Inr m, envm)"
    and ra: "run_assistant api ?state2 assistant_id envm = Some (Inr u, state', enve)"
    and e': "env' = enve\<lparr>previous_question := Some selected_question\<rparr>"
    by blast
  from run_assistant_success [OF ra] obtain run0 env1 r env2 msgs new where
    "create_run api (thread_id state) assistant_id envm = (Inr run0, env1)"
    "poll_loop api (thread_id state) run0 env1 = Some (Inr r, env2)"
    "status r = ''completed''"
    "get_messages api (thread_id state) env2 = (Inr (Some msgs), enve)"
    "list_all2 entry_of (assistant_messages r msgs) new"
    "state' = ?state2\<lparr>assistant_is_typing := False, messages := messages ?state2 @ new\<rparr>"
    by auto
  with False d cm e' have
    "(if user_input \<noteq> None \<and> user_input \<noteq> Some []
            then user_input = Some selected_question \<and> detailed = selected_question
               \<and> ?env0 = env \<and> env' = enve
            else selected_question = selected_question
               \<and> map_of (predefined_questions p) selected_question = Some detailed
               \<and> ?env0 = (if previous_question env = None
                         then env\<lparr>previous_question := Some ''Select a predefined question''\<rparr>
                         else env)
               \<and> env' = enve\<lparr>previous_question := Some selected_question\<rparr>)
         \<and> create_message api (thread_id state) ''user'' detailed ?env0 = (Inr m, envm)
         \<and> create_run api (thread_id state) assistant_id envm = (Inr run0, env1)
         \<and> poll_loop api (thread_id state) run0 env1 = Some (Inr r, env2)
         \<and> status r = ''completed''
         \<and> get_messages api (thread_id state) env2 = (Inr (Some msgs), enve)
         \<and> list_all2 entry_of
              (filter (\<lambda>message. run_id message = Some (ident r)
                                 \<and> message_role message = ''assistant'') msgs) new
         \<and> state' = state\<lparr>question_count := question_count state + 1,
                            messages := messages state @ [\<lparr>role = ''user'', content = selected_question\<rparr>] @ new,
                            assistant_is_typing := False\<rparr>"
    by (auto simp: assistant_messages_def)
  then show ?thesis by (intro exI)
qed

lemma send_initial_messages_success:
  assumes "send_initial_messages api p state aid env = Some (Inr u, state', env')"
  shows "\<exists>m1 env1 u1 state1 env2 m2 env3.
           create_message api (thread_id state) ''user''
             (initial_prompt p (job_type state) (job_description_text state) (resume_text state))
             env = (Inr m1, env1)
         \<and> run_assistant api state aid env1 = Some (Inr u1, state1, env2)
         \<and> create_message api (thread_id state) ''user'' (second_prompt p) env2 = (Inr m2, env3)
         \<and> run_assistant api state1 aid env3 = Some (Inr u, state', env')"
proof -
  let ?first = "initial_prompt p (job_type state) (job_description_text state) (resume_text state)"
  obtain c1 env1 where c1: "create_message api (thread_id state) ''user'' ?first env = (c1, env1)"
    by (cases "create_message api (thread_id state) ''user'' ?first env")
  from assms c1 obtain m1 where m1: "c1 = Inr m1"
    by (cases c1) (auto simp: send_initial_messages_def)
  from assms c1 m1 obtain r1 state1 env2 where
    run1: "run_assistant api state aid env1 = Some (r1, state1, env2)"
    by (cases "run_assistant api state aid env1") (auto simp: send_initial_messages_def)
  from assms c1 m1 run1 obtain u1 where u1: "r1 = Inr u1"
    by (cases r1) (auto simp: send_initial_messages_def)
  from run_assistant_frame [OF run1] have tid: "thread_id state1 = thread_id state"
    by auto
  obtain c2 env3 where
    c2: "create_message api (thread_id state) ''user'' (second_prompt p) env2 = (c2, env3)"
    by (cases "create_message api (thread_id state) ''user'' (second_prompt p) env2")
  from assms c1 m1 run1 u1 c2 tid obtain m2 where m2: "c2 = Inr m2"
    by (cases c2) (auto simp: send_initial_messages_def)
  from assms c1 m1 run1 u1 c2 m2 tid have
    "run_assistant api state1 aid env3 = Some (Inr u, state', env')"
    by (simp add: send_initial_messages_def)
  with c1 m1 run1 u1 c2 m2 show ?thesis by blast
qed

lemma typed_question_result:
  "chat_interface scripted canned (Some ''Thanks'') ''Select a predefined question'' asking
     ''asst_1'' (starting four_polls) =
     Some (Inr Rerun,
           asking\<lparr>question_count := 2,
                  messages := [\<lparr>role = ''user'', content = ''Hello''\<rparr>,
                               \<lparr>role = ''user'', content = ''Thanks''\<rparr>,
                               \<lparr>role = ''assistant'', content = ''Hi there''\<rparr>]\<rparr>,
           \<lparr>world = four_polls\<lparr>on_runs_retrieve := [Returns (Run ''run_4'' ''completed'')]\<rparr>,
            trace = [Call Messages_create, Call Runs_create,
                     Sleep 1, Call Runs_retrieve, Sleep 1, Call Runs_retrieve,
                     Sleep 1, Call Runs_retrieve, Sleep 1, Call Runs_retrieve, Call Messages_list],
            previous_question = None\<rparr>)"
  by (simp add: chat_interface_def run_assistant_def poll_loop.simps remote_calls four_polls_def
        asking_def assistant_messages_def text_value_def SessionState_init_def
        MAX_QUESTIONS_PER_SESSION_def)

text \<open>
  C7, as the code has it. When \<open>run_assistant\<close> returns, it has created one run,
  polled it until the run last fetched was \<^verbatim>\<open>completed\<close>, listed the messages once
  and appended, in the order of the listing, one entry for each message whose
  \<^verbatim>\<open>run_id\<close> is the identifier of that run and whose role is \<^verbatim>\<open>assistant\<close>, and
  nothing else. A successful submission of the user through \<open>chat_interface\<close> (a typed
  question, or a predefined question, below the limit) posts the prompt, counts the
  question and appends exactly one user entry, then those assistant entries of the run
  it created. A seed submission of \<open>send_initial_messages\<close> appends no user entry: each
  of the two seed prompts is posted to the remote thread and followed by one
  \<open>run_assistant\<close>, so the transcript receives the assistant entries of the two runs
  only.
\<close>

theorem transcript_entries_of_submissions:
  "(\<forall>u state' env'.
      run_assistant api state assistant_id env = Some (Inr u, state', env')
      \<longrightarrow> (\<exists>run0 env1 r env2 msgs new.
             create_run api (thread_id state) assistant_id env = (Inr run0, env1)
           \<and> poll_loop api (thread_id state) run0 env1 = Some (Inr r, env2)
           \<and> status r = ''completed''
           \<and> get_messages api (thread_id state) env2 = (Inr (Some msgs), env')
           \<and> list_all2 entry_of
                (filter (\<lambda>message. run_id message = Some (ident r)
                                   \<and> message_role message = ''assistant'') msgs) new
           \<and> state' = state\<lparr>assistant_is_typing := False,
                              messages := messages state @ new\<rparr>))
   \<and> (\<forall>state' env'.
        chat_interface api p user_input selected_question state assistant_id env
          = Some (Inr Rerun, state', env')
        \<and> question_count state < MAX_QUESTIONS_PER_SESSION
        \<longrightarrow> (\<exists>text prompt env0 m envm run0 env1 r env2 msgs env3 new.
               (if user_input \<noteq> None \<and> user_input \<noteq> Some []
                then user_input = Some text \<and> prompt = text \<and> env0 = env \<and> env' = env3
                else text = selected_question
                   \<and> map_of (predefined_questions p) selected_question = Some prompt
                   \<and> env0 = (if previous_question env = None
                             then env\<lparr>previous_question := Some ''Select a predefined question''\<rparr>
                             else env)
                   \<and> env' = env3\<lparr>previous_question := Some selected_question\<rparr>)
             \<and> create_message api (thread_id state) ''user'' prompt env0 = (Inr m, envm)
             \<and> create_run api (thread_id state) assistant_id envm = (Inr run0, env1)
             \<and> poll_loop api (thread_id state) run0 env1 = Some (Inr r, env2)
             \<and> status r = ''completed''
             \<and> get_messages api (thread_id state) env2 = (Inr (Some msgs), env3)
             \<and> list_all2 entry_of
                  (filter (\<lambda>message. run_id message = Some (ident r)
                                     \<and> message_role message = ''assistant'') msgs) new
             \<and> state' = state\<lparr>question_count := question_count state + 1,
                                messages := messages state
                                            @ [\<lparr>role = ''user'', content = text\<rparr>] @ new,
                                assistant_is_typing := False\<rparr>))
   \<and> (\<forall>u state' env'.
        send_initial_messages api p state assistant_id env = Some (Inr u, state', env')
        \<longrightarrow> (\<exists>m1 env1 u1 state1 env2 m2 env3.
               create_message api (thread_id state) ''user''
                 (initial_prompt p (job_type state) (job_description_text state)
                    (resume_text state)) env = (Inr m1, env1)
             \<and> run_assistant api state assistant_id env1 = Some (Inr u1, state1, env2)
             \<and> create_message api (thread_id state) ''user'' (second_prompt p) env2
                 = (Inr m2, env3)
             \<and> run_assistant api state1 assistant_id env3 = Some (Inr u, state', env')))"
proof (intro conjI allI impI)
  fix u state' env'
  assume "run_assistant api state assistant_id env = Some (Inr u, state', env')"
  from run_assistant_success [OF this] obtain run0 env1 r env2 msgs new where
    "create_run api (thread_id state) assistant_id env = (Inr run0, env1)
           \<and> poll_loop api (thread_id state) run0 env1 = Some (Inr r, env2)
           \<and> status r = ''completed''
           \<and> get_messages api (thread_id state) env2 = (Inr (Some msgs), env')
           \<and> list_all2 entry_of
                (filter (\<lambda>message. run_id message = Some (ident r)
                                   \<and> message_role message = ''assistant'') msgs) new
           \<and> state' = state\<lparr>assistant_is_typing := False,
                              messages := messages state @ new\<rparr>"
    unfolding assistant_messages_def by auto
  then show "\<exists>run0 env1 r env2 msgs new.
             create_run api (thread_id state) assistant_id env = (Inr run0, env1)
           \<and> poll_loop api (thread_id state) run0 env1 = Some (Inr r, env2)
           \<and> status r = ''completed''
           \<and> get_messages api (thread_id state) env2 = (Inr (Some msgs), env')
           \<and> list_all2 entry_of
                (filter (\<lambda>message. run_id message = Some (ident r)
                                   \<and> message_role message = ''assistant'') msgs) new
           \<and> state' = state\<lparr>assistant_is_typing := False,
                              messages := messages state @ new\<rparr>"
    by (intro exI)
next
  fix state' env'
  assume a: "chat_interface api p user_input selected_question state assistant_id env
          = Some (Inr Rerun, state', env')
        \<and> question_count state < MAX_QUESTIONS_PER_SESSION"
  from a have 1: "chat_interface api p user_input selected_question state assistant_id env
          = Some (Inr Rerun, state', env')" ..
  from a have 2: "question_count state < MAX_QUESTIONS_PER_SESSION" ..
  from chat_interface_appends [OF 1 2]
  show "\<exists>text prompt env0 m envm run0 env1 r env2 msgs env3 new.
               (if user_input \<noteq> None \<and> user_input \<noteq> Some []
                then user_input = Some text \<and> prompt = text \<and> env0 = env \<and> env' = env3
                else text = selected_question
                   \<and> map_of (predefined_questions p) selected_question = Some prompt
                   \<and> env0 = (if previous_question env = None
                             then env\<lparr>previous_question := Some ''Select a predefined question''\<rparr>
                             else env)
                   \<and> env' = env3\<lparr>previous_question := Some selected_question\<rparr>)
             \<and> create_message api (thread_id state) ''user'' prompt env0 = (Inr m, envm)
             \<and> create_run api (thread_id state) assistant_id envm = (Inr run0, env1)
             \<and> poll_loop api (thread_id state) run0 env1 = Some (Inr r, env2)
             \<and> status r = ''completed''
             \<and> get_messages api (thread_id state) env2 = (Inr (Some msgs), env3)
             \<and> list_all2 entry_of
                  (filter (\<lambda>message. run_id message = Some (ident r)
                                     \<and> message_role message = ''assistant'') msgs) new
             \<and> state' = state\<lparr>question_count := question_count state + 1,
                                messages := messages state
                                            @ [\<lparr>role = ''user'', content = text\<rparr>] @ new,
                                assistant_is_typing := False\<rparr>" .
next
  fix u state' env'
  assume "send_initial_messages api p state assistant_id env = Some (Inr u, state', env')"
  then show "\<exists>m1 env1 u1 state1 env2 m2 env3.
               create_message api (thread_id state) ''user''
                 (initial_prompt p (job_type state) (job_description_text state)
                    (resume_text state)) env = (Inr m1, env1)
             \<and> run_assistant api state assistant_id env1 = Some (Inr u1, state1, env2)
             \<and> create_message api (thread_id state) ''user'' (second_prompt p) env2
                 = (Inr m2, env3)
             \<and> run_assistant api state1 assistant_id env3 = Some (Inr u, state', env')"
    by (rule send_initial_messages_success)
qed

text \<open>
  A typed question on a thread whose listing also holds the reply of an earlier run:
  one user entry and the reply of the run just created are appended.
\<close>

theorem transcript_entries_of_submissions_witness:
  "chat_interface scripted canned (Some ''Thanks'') ''Select a predefined question'' asking
     ''asst_1'' (starting four_polls) =
     Some (Inr Rerun,
           asking\<lparr>question_count := 2,
                  messages := [\<lparr>role = ''user'', content = ''Hello''\<rparr>,
                               \<lparr>role = ''user'', content = ''Thanks''\<rparr>,
                               \<lparr>role = ''assistant'', content = ''Hi there''\<rparr>]\<rparr>,
           \<lparr>world = four_polls\<lparr>on_runs_retrieve := [Returns (Run ''run_4'' ''completed'')]\<rparr>,
            trace = [Call Messages_create, Call Runs_create,
                     Sleep 1, Call Runs_retrieve, Sleep 1, Call Runs_retrieve,
                     Sleep 1, Call Runs_retrieve, Sleep 1, Call Runs_retrieve, Call Messages_list],
            previous_question = None\<rparr>)
   \<and> question_count asking < MAX_QUESTIONS_PER_SESSION"
proof -
  have below: "question_count asking < MAX_QUESTIONS_PER_SESSION"
    by (simp add: asking_def MAX_QUESTIONS_PER_SESSION_def)
  from transcript_entries_of_submissions
    [where api = scripted and state = asking and assistant_id = "''asst_1''"
       and env = "starting four_polls" and p = canned and user_input = "Some ''Thanks''"
       and selected_question = "''Select a predefined question''"]
    typed_question_result below
  have "\<exists>text new. asking\<lparr>question_count := 2,
                  messages := [\<lparr>role = ''user'', content = ''Hello''\<rparr>,
                               \<lparr>role = ''user'', content = ''Thanks''\<rparr>,
                               \<lparr>role = ''assistant'', content = ''Hi there''\<rparr>]\<rparr>
            = asking\<lparr>question_count := question_count asking + 1,
                     messages := messages asking @ [\<lparr>role = ''user'', content = text\<rparr>] @ new,
                     assistant_is_typing := False\<rparr>"
    by blast
  with typed_question_result below show ?thesis by simp
qed

text \<open>
  Two successful seed submissions into an empty transcript leave two assistant
  entries and no user entry.
\<close>

theorem seed_submissions_counterexample:
  "map_option fst (send_initial_messages scripted canned seeded_thread ''asst_1'' (starting seeding))
     = Some (Inr ())
   \<and> map_option (messages \<circ> fst \<circ> snd)
       (send_initial_messages scripted canned seeded_thread ''asst_1'' (starting seeding))
     = Some [\<lparr>role = ''assistant'', content = ''Analysis''\<rparr>,
             \<lparr>role = ''assistant'', content = ''Drafts''\<rparr>]"
  by (simp add: send_initial_messages_def run_assistant_def poll_loop.simps remote_calls seeding_def
        assistant_messages_def text_value_def canned_def seeded_thread_def SessionState_init_def)

text \<open>
  C4. In a session with \<open>0 \<le> question_count \<le> MAX_QUESTIONS_PER_SESSION\<close>: a reset
  keeps the count within the bounds; \<open>start_chat_fn\<close>, \<open>send_initial_messages\<close> and
  \<open>run_assistant\<close> leave the count as it is, however they end; \<open>chat_interface\<close>
  keeps it within the bounds, never lowers it below the limit, and at the limit makes no
  remote call and leaves the session as it was or reset; and at the limit \<open>main\<close>
  offers the reset and returns before it reaches anything else.
\<close>

theorem question_count_within_limit:
  assumes "0 \<le> question_count state"
    and "question_count state \<le> MAX_QUESTIONS_PER_SESSION"
  shows "(0 \<le> question_count (reset_chat state)
            \<and> question_count (reset_chat state) \<le> MAX_QUESTIONS_PER_SESSION)
       \<and> (\<forall>res state' env'.
             start_chat_fn api p state assistant_id env = Some (res, state', env')
             \<longrightarrow> question_count state' = question_count state)
       \<and> (\<forall>res state' env'.
             send_initial_messages api p state assistant_id env = Some (res, state', env')
             \<longrightarrow> question_count state' = question_count state)
       \<and> (\<forall>res state' env'.
             run_assistant api state assistant_id env = Some (res, state', env')
             \<longrightarrow> question_count state' = question_count state)
       \<and> (\<forall>res state' env'.
             chat_interface api p user_input selected_question state assistant_id env
               = Some (res, state', env')
             \<longrightarrow> 0 \<le> question_count state'
                 \<and> question_count state' \<le> MAX_QUESTIONS_PER_SESSION
                 \<and> (question_count state < MAX_QUESTIONS_PER_SESSION
                      \<longrightarrow> question_count state \<le> question_count state')
                 \<and> (question_count state = MAX_QUESTIONS_PER_SESSION
                      \<longrightarrow> (state' = state \<or> state' = reset_chat state)
                          \<and> trace env' = trace env \<and> world env' = world env))
       \<and> (question_count state = MAX_QUESTIONS_PER_SESSION
            \<longrightarrow> main_question_limit start_new_session state
                  = Some (if start_new_session then (Rerun, reset_chat state) else (Returned, state)))"
proof (intro conjI allI impI)
  show "0 \<le> question_count (reset_chat state)"
    and "question_count (reset_chat state) \<le> MAX_QUESTIONS_PER_SESSION"
    by (simp_all add: reset_chat_def MAX_QUESTIONS_PER_SESSION_def)
next
  fix res state' env'
  assume "start_chat_fn api p state assistant_id env = Some (res, state', env')"
  then show "question_count state' = question_count state"
    by (auto simp: start_chat_fn_def Let_def split: prod.splits sum.splits option.splits
             dest!: send_initial_messages_question_count)
next
  fix res state' env'
  assume "send_initial_messages api p state assistant_id env = Some (res, state', env')"
  then show "question_count state' = question_count state"
    by (rule send_initial_messages_question_count)
next
  fix res state' env'
  assume "run_assistant api state assistant_id env = Some (res, state', env')"
  then show "question_count state' = question_count state"
    by (rule run_assistant_question_count)
next
  fix res state' env'
  assume ci: "chat_interface api p user_input selected_question state assistant_id env
               = Some (res, state', env')"
  have below: "question_count state' = question_count state
         \<or> question_count state' = question_count state + 1"
    if "question_count state < MAX_QUESTIONS_PER_SESSION"
    using ci that by (rule chat_interface_question_count)
  have at: "(state' = state \<or> state' = reset_chat state)
         \<and> trace env' = trace env \<and> world env' = world env"
    if "\<not> question_count state < MAX_QUESTIONS_PER_SESSION"
    using chat_interface_at_limit [OF that ci] by simp
  show "0 \<le> question_count state'"
    using assms below at
    by (cases "question_count state < MAX_QUESTIONS_PER_SESSION") (auto simp: reset_chat_def)
  show "question_count state' \<le> MAX_QUESTIONS_PER_SESSION"
    using assms below at
    by (cases "question_count state < MAX_QUESTIONS_PER_SESSION")
       (auto simp: reset_chat_def MAX_QUESTIONS_PER_SESSION_def)
  show "question_count state \<le> question_count state'"
    if "question_count state < MAX_QUESTIONS_PER_SESSION"
    using below [OF that] by auto
  show "state' = state \<or> state' = reset_chat state"
    and "trace env' = trace env" and "world env' = world env"
    if "question_count state = MAX_QUESTIONS_PER_SESSION"
    using at that by simp_all
next
  assume "question_count state = MAX_QUESTIONS_PER_SESSION"
  then show "main_question_limit start_new_session state
                  = Some (if start_new_session then (Rerun, reset_chat state) else (Returned, state))"
    by (simp add: main_question_limit_def)
qed

theorem question_count_within_limit_witness:
  "chat_interface scripted canned (Some ''One more'') ''Select a predefined question''
     (asking\<lparr>question_count := 500\<rparr>) ''asst_1'' (starting seeding)
     = Some (Inr Rerun, reset_chat (asking\<lparr>question_count := 500\<rparr>), starting seeding)
   \<and> main_question_limit False (asking\<lparr>question_count := 500\<rparr>)
       = Some (Returned, asking\<lparr>question_count := 500\<rparr>)
   \<and> question_count (reset_chat (asking\<lparr>question_count := 500\<rparr>)) = 0"
proof -
  let ?state = "asking\<lparr>question_count := 500\<rparr>"
  have r: "0 \<le> question_count ?state" "question_count ?state \<le> MAX_QUESTIONS_PER_SESSION"
    and at: "question_count ?state = MAX_QUESTIONS_PER_SESSION"
    by (simp_all add: MAX_QUESTIONS_PER_SESSION_def)
  have ci: "chat_interface scripted canned (Some ''One more'') ''Select a predefined question''
     ?state ''asst_1'' (starting seeding) = Some (Inr Rerun, reset_chat ?state, starting seeding)"
    by (simp add: chat_interface_def MAX_QUESTIONS_PER_SESSION_def)
  from question_count_within_limit [OF r, of scripted canned "''asst_1''" "starting seeding"
      "Some ''One more''" "''Select a predefined question''" False] at
  have "main_question_limit False ?state = Some (Returned, ?state)"
    by simp
  with ci show ?thesis
    by (simp add: reset_chat_def)
qed

section \<open>Reset: properties\<close>

text \<open>
  C5. \<open>reset_chat\<close> leaves a session with an empty transcript, a question count of
  0, no thread identifier and \<open>start_chat\<close> false, whatever the session was; a second
  reset changes nothing.
\<close>

theorem reset_chat_clears:
  "messages (reset_chat state) = []
   \<and> question_count (reset_chat state) = 0
   \<and> thread_id (reset_chat state) = None
   \<and> start_chat (reset_chat state) = False
   \<and> reset_chat (reset_chat state) = reset_chat state"
  by (simp add: reset_chat_def)

text \<open>
  C10. \<open>reset_chat\<close> differs from the session it was given in at most the ten fields
  \<open>messages\<close>, \<open>start_chat\<close>, \<open>thread_id\<close>, \<open>buttons_shown\<close>,
  \<open>assistant_is_typing\<close>, \<open>question_count\<close>, \<open>resume_text\<close>,
  \<open>job_description_text\<close>, \<open>job_type\<close> and \<open>job_url\<close>; the fields
  \<open>processing\<close>, \<open>job_input_method\<close> and \<open>resume_input_method\<close> keep their values.
\<close>

theorem reset_chat_frame:
  "processing (reset_chat state) = processing state
   \<and> job_input_method (reset_chat state) = job_input_method state
   \<and> resume_input_method (reset_chat state) = resume_input_method state
   \<and> reset_chat state =
       state\<lparr> messages := messages (reset_chat state),
              start_chat := start_chat (reset_chat state),
              thread_id := thread_id (reset_chat state),
              buttons_shown := buttons_shown (reset_chat state),
              assistant_is_typing := assistant_is_typing (reset_chat state),
              question_count := question_count (reset_chat state),
              resume_text := resume_text (reset_chat state),
              job_description_text := job_description_text (reset_chat state),
              job_type := job_type (reset_chat state),
              job_url := job_url (reset_chat state) \<rparr>"
  by (simp add: reset_chat_def)

end
